theory Spec2Isabelle
  imports Main "HOL-Library.Multiset" "HOL-Library.Sublist"
begin

section \<open>JavaScript values used by the program\<close>

text \<open>
  A JavaScript string is modelled as a \<^typ>\<open>string\<close>; a character stands for one code unit
  below 256.  A thrown value is either an \<open>Error\<close> object (every built-in error class, such
  as \<open>RangeError\<close> and \<open>TypeError\<close>, is an instance of \<open>Error\<close>) with its name and message,
  or some other value, of which only the result of \<open>String(value)\<close> is kept.
\<close>

datatype js_thrown =
    ErrorObject (errName: string) (errMessage: string)
  | NonErrorValue (asString: string)

text \<open>Truthiness of a string-valued property that may be \<open>undefined\<close>.\<close>

fun truthy :: "string option \<Rightarrow> bool" where
  "truthy None = False"
| "truthy (Some s) = (s \<noteq> [])"

text \<open>\<open>x || ""\<close> for a string-valued \<open>x\<close> that may be \<open>undefined\<close>.\<close>

fun orEmpty :: "string option \<Rightarrow> string" where
  "orEmpty None = []"
| "orEmpty (Some s) = s"

section \<open>The \<open>Date\<close> object\<close>

text \<open>
  A time value is a number of milliseconds since 1970-01-01T00:00:00Z.  \<open>Date.parse\<close> of the
  host is a parameter of the model: it maps a string to a time value, or to \<open>None\<close> for
  \<open>NaN\<close>.  The constructor clips the parsed value to the range of \<open>Date\<close>.
\<close>

type_synonym date_parse = "string \<Rightarrow> int option"

definition TimeClip :: "int \<Rightarrow> int option" where
  "TimeClip t = (if \<bar>t\<bar> > 8640000000000000 then None else Some t)"

definition newDate :: "date_parse \<Rightarrow> string \<Rightarrow> int option" where
  "newDate dp s = (case dp s of None \<Rightarrow> None | Some t \<Rightarrow> TimeClip t)"

subsection \<open>Calendar arithmetic\<close>

definition msPerDay :: int where
  "msPerDay = 86400000"

text \<open>Day number (days since the epoch) of a date of the proleptic Gregorian calendar.\<close>

definition daysFromCivil :: "int \<Rightarrow> int \<Rightarrow> int \<Rightarrow> int" where
  "daysFromCivil y m d =
     (let y' = (if m \<le> 2 then y - 1 else y);
          era = y' div 400;
          yoe = y' - era * 400;
          mp = (if m > 2 then m - 3 else m + 9);
          doy = (153 * mp + 2) div 5 + d - 1;
          doe = yoe * 365 + yoe div 4 - yoe div 100 + doy
      in era * 146097 + doe - 719468)"

text \<open>Year, month (1 to 12) and day of the month of a day number.\<close>

definition civilFromDays :: "int \<Rightarrow> int \<times> int \<times> int" where
  "civilFromDays z0 =
     (let z = z0 + 719468;
          era = z div 146097;
          doe = z - era * 146097;
          yoe = (doe - doe div 1460 + doe div 36524 - doe div 146096) div 365;
          y = yoe + era * 400;
          doy = doe - (365 * yoe + yoe div 4 - yoe div 100);
          mp = (5 * doy + 2) div 153;
          d = doy - (153 * mp + 2) div 5 + 1;
          m = (if mp < 10 then mp + 3 else mp - 9)
      in (if m \<le> 2 then y + 1 else y, m, d))"

text \<open>The length of a month of the Gregorian calendar.\<close>

definition leapYear :: "int \<Rightarrow> bool" where
  "leapYear y = ((y mod 4 = 0 \<and> y mod 100 \<noteq> 0) \<or> y mod 400 = 0)"

definition daysInMonth :: "int \<Rightarrow> int \<Rightarrow> int" where
  "daysInMonth y m =
     (if m = 2 then (if leapYear y then 29 else 28)
      else if m = 4 \<or> m = 6 \<or> m = 9 \<or> m = 11 then 30
      else 31)"

subsection \<open>Decimal digits\<close>

text \<open>The digits are the code units 48 to 57.\<close>

definition digitChar :: "int \<Rightarrow> char" where
  "digitChar k = char_of (48 + nat k)"

definition digitVal :: "char \<Rightarrow> int option" where
  "digitVal c =
     (let n = (of_char c :: nat) in if 48 \<le> n \<and> n \<le> 57 then Some (int n - 48) else None)"

definition pad2 :: "int \<Rightarrow> string" where
  "pad2 k = [digitChar (k div 10 mod 10), digitChar (k mod 10)]"

definition pad3 :: "int \<Rightarrow> string" where
  "pad3 k = digitChar (k div 100 mod 10) # pad2 k"

definition pad4 :: "int \<Rightarrow> string" where
  "pad4 k = digitChar (k div 1000 mod 10) # pad3 k"

definition pad6 :: "int \<Rightarrow> string" where
  "pad6 k = digitChar (k div 100000 mod 10) # digitChar (k div 10000 mod 10) # pad4 k"

subsection \<open>\<open>Date.prototype.toISOString\<close>\<close>

text \<open>
  The year is written with four digits when it lies in 0 to 9999 and as a sign followed by
  six digits otherwise.
\<close>

definition yearString :: "int \<Rightarrow> string" where
  "yearString y =
     (if 0 \<le> y \<and> y \<le> 9999 then pad4 y
      else (if y < 0 then CHR ''-'' else CHR ''+'') # pad6 \<bar>y\<bar>)"

definition isoString :: "int \<Rightarrow> string" where
  "isoString t =
     (let (y, m, d) = civilFromDays (t div msPerDay);
          r = t mod msPerDay
      in yearString y @ ''-'' @ pad2 m @ ''-'' @ pad2 d @ ''T''
         @ pad2 (r div 3600000) @ '':'' @ pad2 (r div 60000 mod 60) @ '':''
         @ pad2 (r div 1000 mod 60) @ ''.'' @ pad3 (r mod 1000) @ ''Z'')"

text \<open>\<open>toISOString\<close> throws a \<open>RangeError\<close> when the time value of the date is \<open>NaN\<close>.\<close>

definition invalidTime :: js_thrown where
  "invalidTime = ErrorObject ''RangeError'' ''Invalid time value''"

definition toISOString :: "int option \<Rightarrow> js_thrown + string" where
  "toISOString tv = (case tv of None \<Rightarrow> Inl invalidTime | Some t \<Rightarrow> Inr (isoString t))"

subsection \<open>A parser for the date-time string format\<close>

text \<open>
  An instance of \<open>Date.parse\<close>: the date-time string format of the language standard with a
  complete calendar date, a time with seconds, an optional fraction of three digits, and an
  explicit offset \<open>Z\<close>, \<open>+HH:mm\<close> or \<open>-HH:mm\<close>.  Every other string is rejected by this
  instance.
\<close>

fun readDigits :: "nat \<Rightarrow> int \<Rightarrow> string \<Rightarrow> (int \<times> string) option" where
  "readDigits 0 acc s = Some (acc, s)"
| "readDigits (Suc n) acc [] = None"
| "readDigits (Suc n) acc (c # cs) =
     (case digitVal c of None \<Rightarrow> None | Some v \<Rightarrow> readDigits n (10 * acc + v) cs)"

definition digits2 :: "string \<Rightarrow> (int \<times> string) option" where
  "digits2 s = readDigits (Suc (Suc 0)) 0 s"

definition digits3 :: "string \<Rightarrow> (int \<times> string) option" where
  "digits3 s = readDigits (Suc (Suc (Suc 0))) 0 s"

definition digits4 :: "string \<Rightarrow> (int \<times> string) option" where
  "digits4 s = readDigits (Suc (Suc (Suc (Suc 0)))) 0 s"

fun expect :: "char \<Rightarrow> string \<Rightarrow> string option" where
  "expect c [] = None"
| "expect c (x # xs) = (if x = c then Some xs else None)"

text \<open>The optional fraction: milliseconds and the rest of the input.\<close>

fun readFraction :: "string \<Rightarrow> (int \<times> string) option" where
  "readFraction [] = Some (0, [])"
| "readFraction (x # xs) = (if x = CHR ''.'' then digits3 xs else Some (0, x # xs))"

text \<open>The offset in minutes east of Greenwich; nothing may follow it.\<close>

definition readHHmm :: "string \<Rightarrow> int option" where
  "readHHmm s =
     (case digits2 s of None \<Rightarrow> None
      | Some (hh, s1) \<Rightarrow>
     (case expect CHR '':'' s1 of None \<Rightarrow> None
      | Some s2 \<Rightarrow>
     (case digits2 s2 of None \<Rightarrow> None
      | Some (mm, s3) \<Rightarrow>
        if s3 = [] \<and> hh \<le> 23 \<and> mm \<le> 59 then Some (hh * 60 + mm) else None)))"

fun readOffset :: "string \<Rightarrow> int option" where
  "readOffset [] = None"
| "readOffset (x # xs) =
     (if x = CHR ''Z'' then (if xs = [] then Some 0 else None)
      else if x = CHR ''+'' then readHHmm xs
      else if x = CHR ''-'' then map_option uminus (readHHmm xs)
      else None)"

definition makeTime :: "int \<Rightarrow> int \<Rightarrow> int \<Rightarrow> int \<Rightarrow> int \<Rightarrow> int \<Rightarrow> int \<Rightarrow> int \<Rightarrow> int" where
  "makeTime y mo d h mi s ms off =
     daysFromCivil y mo d * msPerDay + h * 3600000 + mi * 60000 + s * 1000 + ms - off * 60000"

definition isoParse :: date_parse where
  "isoParse s0 =
     (case digits4 s0 of None \<Rightarrow> None | Some (y, s1) \<Rightarrow>
     (case expect CHR ''-'' s1 of None \<Rightarrow> None | Some s2 \<Rightarrow>
     (case digits2 s2 of None \<Rightarrow> None | Some (mo, s3) \<Rightarrow>
     (case expect CHR ''-'' s3 of None \<Rightarrow> None | Some s4 \<Rightarrow>
     (case digits2 s4 of None \<Rightarrow> None | Some (d, s5) \<Rightarrow>
     (case expect CHR ''T'' s5 of None \<Rightarrow> None | Some s6 \<Rightarrow>
     (case digits2 s6 of None \<Rightarrow> None | Some (h, s7) \<Rightarrow>
     (case expect CHR '':'' s7 of None \<Rightarrow> None | Some s8 \<Rightarrow>
     (case digits2 s8 of None \<Rightarrow> None | Some (mi, s9) \<Rightarrow>
     (case expect CHR '':'' s9 of None \<Rightarrow> None | Some s10 \<Rightarrow>
     (case digits2 s10 of None \<Rightarrow> None | Some (s, s11) \<Rightarrow>
     (case readFraction s11 of None \<Rightarrow> None | Some (ms, s12) \<Rightarrow>
     (case readOffset s12 of None \<Rightarrow> None | Some off \<Rightarrow>
        if 1 \<le> mo \<and> mo \<le> 12 \<and> 1 \<le> d \<and> d \<le> daysInMonth y mo
           \<and> h \<le> 23 \<and> mi \<le> 59 \<and> s \<le> 59
        then Some (makeTime y mo d h mi s ms off) else None)))))))))))))"

text \<open>
  The engine that runs the repository (Deno, on V8) reads the same format, but admits the
  days 1 to 31 in every month: a day past the end of its month denotes the day that many
  days after the first of the month, as the day number computes it.  This instance models
  the engine on strings of that shape; it rejects the others, which the engine reads by
  rules of its own.
\<close>

definition v8Parse :: date_parse where
  "v8Parse s0 =
     (case digits4 s0 of None \<Rightarrow> None | Some (y, s1) \<Rightarrow>
     (case expect CHR ''-'' s1 of None \<Rightarrow> None | Some s2 \<Rightarrow>
     (case digits2 s2 of None \<Rightarrow> None | Some (mo, s3) \<Rightarrow>
     (case expect CHR ''-'' s3 of None \<Rightarrow> None | Some s4 \<Rightarrow>
     (case digits2 s4 of None \<Rightarrow> None | Some (d, s5) \<Rightarrow>
     (case expect CHR ''T'' s5 of None \<Rightarrow> None | Some s6 \<Rightarrow>
     (case digits2 s6 of None \<Rightarrow> None | Some (h, s7) \<Rightarrow>
     (case expect CHR '':'' s7 of None \<Rightarrow> None | Some s8 \<Rightarrow>
     (case digits2 s8 of None \<Rightarrow> None | Some (mi, s9) \<Rightarrow>
     (case expect CHR '':'' s9 of None \<Rightarrow> None | Some s10 \<Rightarrow>
     (case digits2 s10 of None \<Rightarrow> None | Some (s, s11) \<Rightarrow>
     (case readFraction s11 of None \<Rightarrow> None | Some (ms, s12) \<Rightarrow>
     (case readOffset s12 of None \<Rightarrow> None | Some off \<Rightarrow>
        if 1 \<le> mo \<and> mo \<le> 12 \<and> 1 \<le> d \<and> d \<le> 31
           \<and> h \<le> 23 \<and> mi \<le> 59 \<and> s \<le> 59
        then Some (makeTime y mo d h mi s ms off) else None)))))))))))))"

section \<open>Data model (\<open>types.ts\<close>)\<close>

text \<open>
  An optional property of an object that the program builds is absent, present with the
  value \<open>undefined\<close>, or present with a value.  Reading it gives \<open>undefined\<close> in the first
  two cases.  Properties of objects that the program only reads are modelled by what
  reading them gives: an \<open>option\<close>.  The seconds and identifiers of a worklog are integers.
\<close>

datatype 'a slot = Absent | Undefined | Defined 'a

fun readSlot :: "'a slot \<Rightarrow> 'a option" where
  "readSlot Absent = None"
| "readSlot Undefined = None"
| "readSlot (Defined v) = Some v"

text \<open>\<open>k in object\<close>: the object has the property, whatever it holds.\<close>

fun isProperty :: "'a slot \<Rightarrow> bool" where
  "isProperty Absent = False"
| "isProperty Undefined = True"
| "isProperty (Defined v) = True"

text \<open>
  The identifiers of the configuration are what \<open>parseInt\<close> made of an environment variable
  (\<open>loadConfig\<close>): an integer, \<open>NaN\<close> for a text that does not start with a numeral, or an
  infinity for a numeral too long for a double.  \<open>NaN\<close> and zero are the falsy numbers.
\<close>

datatype number = Num int | NaN | PlusInfinity | MinusInfinity

fun truthyNumber :: "number \<Rightarrow> bool" where
  "truthyNumber (Num n) = (n \<noteq> 0)"
| "truthyNumber NaN = False"
| "truthyNumber PlusInfinity = True"
| "truthyNumber MinusInfinity = True"

record Issue =
  self :: string
  issueId :: int
  key :: "string option"
  summary :: "string option"

record Author =
  authorSelf :: string
  accountId :: string

record Attributes =
  attributesSelf :: string
  attributeValues :: "string list"

record TempoWorklog =
  worklogSelf :: string
  tempoWorklogId :: int
  issue :: "Issue option"
  timeSpentSeconds :: int
  billableSeconds :: int
  startDate :: string
  startTime :: string
  startDateTimeUtc :: string
  worklogDescription :: "string option"
  createdAt :: string
  updatedAt :: string
  author :: Author
  attributes :: Attributes

record TogglTimeEntryPayload =
  workspace_id :: number
  project_id :: "number slot"
  task_id :: "number slot"
  billable :: bool
  start :: string
  stop :: "string slot"
  duration :: int
  description :: string
  created_with :: string
  tags :: "string list slot"

record TempoToTogglConfig =
  cfg_workspace_id :: number
  cfg_project_id :: "number option"
  cfg_task_id :: "number option"
  cfg_created_with :: "string option"

section \<open>Deduplication (\<open>lib/deduplication.ts\<close>)\<close>

record ExistingEntry =
  existingStart :: string

record DeduplicationResult =
  uniqueEntries :: "TogglTimeEntryPayload list"
  duplicates :: "TogglTimeEntryPayload list"
  skippedCount :: nat

text \<open>\<open>normalizeTimestamp\<close>: \<open>new Date(timestamp).toISOString()\<close>.\<close>

definition normalizeTimestamp :: "date_parse \<Rightarrow> string \<Rightarrow> js_thrown + string" where
  "normalizeTimestamp dp timestamp = toISOString (newDate dp timestamp)"

text \<open>\<open>Array.prototype.map\<close> with a callback that may throw: the first throw ends the call.\<close>

fun mapThrow :: "('a \<Rightarrow> js_thrown + 'b) \<Rightarrow> 'a list \<Rightarrow> js_thrown + 'b list" where
  "mapThrow f [] = Inr []"
| "mapThrow f (x # xs) =
     (case f x of Inl t \<Rightarrow> Inl t
      | Inr y \<Rightarrow> (case mapThrow f xs of Inl t \<Rightarrow> Inl t | Inr ys \<Rightarrow> Inr (y # ys)))"

text \<open>
  The callback of \<open>newEntries.filter\<close>, run over the entries in order.  The state is the
  array that \<open>filter\<close> builds and the array \<open>duplicates\<close> that the callback pushes to.
\<close>

fun filterLoop ::
  "date_parse \<Rightarrow> string set \<Rightarrow> TogglTimeEntryPayload list
   \<Rightarrow> TogglTimeEntryPayload list \<times> TogglTimeEntryPayload list
   \<Rightarrow> js_thrown + (TogglTimeEntryPayload list \<times> TogglTimeEntryPayload list)" where
  "filterLoop dp existingStartTimes [] (kept, dups) = Inr (kept, dups)"
| "filterLoop dp existingStartTimes (newEntry # rest) (kept, dups) =
     (case normalizeTimestamp dp (start newEntry) of
        Inl t \<Rightarrow> Inl t
      | Inr normalizedStart \<Rightarrow>
          (let isDuplicate = (normalizedStart \<in> existingStartTimes)
           in if isDuplicate
              then filterLoop dp existingStartTimes rest (kept, dups @ [newEntry])
              else filterLoop dp existingStartTimes rest (kept @ [newEntry], dups)))"

definition filterDuplicateEntries ::
  "date_parse \<Rightarrow> TogglTimeEntryPayload list \<Rightarrow> ExistingEntry list
   \<Rightarrow> js_thrown + DeduplicationResult" where
  "filterDuplicateEntries dp newEntries existingEntries =
     (case mapThrow (\<lambda>entry. normalizeTimestamp dp (existingStart entry)) existingEntries of
        Inl t \<Rightarrow> Inl t
      | Inr normalized \<Rightarrow>
          (let existingStartTimes = set normalized
           in case filterLoop dp existingStartTimes newEntries ([], []) of
                Inl t \<Rightarrow> Inl t
              | Inr (kept, dups) \<Rightarrow>
                  Inr \<lparr>uniqueEntries = kept, duplicates = dups, skippedCount = length dups\<rparr>))"

section \<open>Transformation (\<open>lib/transform.ts\<close>)\<close>

text \<open>
  \<open>String.prototype.trim\<close> removes white space and line terminators at both ends.  Among
  the code units below 256 these are tab, line feed, vertical tab, form feed, carriage
  return, space and no-break space.
\<close>

definition isWhiteSpace :: "char \<Rightarrow> bool" where
  "isWhiteSpace c = ((of_char c :: nat) \<in> {9, 10, 11, 12, 13, 32, 160})"

definition trim :: "string \<Rightarrow> string" where
  "trim s = rev (dropWhile isWhiteSpace (rev (dropWhile isWhiteSpace s)))"

text \<open>\<open>worklog.issue?.key\<close> and \<open>worklog.issue?.self\<close>.\<close>

definition issueKey :: "TempoWorklog \<Rightarrow> string option" where
  "issueKey worklog = (case issue worklog of None \<Rightarrow> None | Some i \<Rightarrow> key i)"

definition issueSelf :: "TempoWorklog \<Rightarrow> string option" where
  "issueSelf worklog = (case issue worklog of None \<Rightarrow> None | Some i \<Rightarrow> Some (self i))"

text \<open>
  The description that \<open>transformTempoWorklogToToggl\<close> composes, before trimming.  In a
  branch guarded by a truthy property the property is a string, so reading it through
  \<^const>\<open>orEmpty\<close> gives that string.
\<close>

definition composeDescription :: "TempoWorklog \<Rightarrow> string" where
  "composeDescription worklog =
     (if truthy (issueKey worklog)
      then orEmpty (issueKey worklog) @ '': '' @ orEmpty (worklogDescription worklog)
      else if truthy (issueSelf worklog)
      then orEmpty (issueSelf worklog) @ '' | '' @ orEmpty (worklogDescription worklog)
      else orEmpty (worklogDescription worklog))"

text \<open>\<open>config.created_with || "tempo-to-toggl-sync"\<close>.\<close>

definition createdWithOrDefault :: "string option \<Rightarrow> string" where
  "createdWithOrDefault c = (if truthy c then orEmpty c else ''tempo-to-toggl-sync'')"

definition transformTempoWorklogToToggl ::
  "TempoWorklog \<Rightarrow> TempoToTogglConfig \<Rightarrow> TogglTimeEntryPayload" where
  "transformTempoWorklogToToggl worklog config =
     (let billable = (billableSeconds worklog > 0);
          description = composeDescription worklog;
          payload =
            \<lparr>workspace_id = cfg_workspace_id config,
             project_id = Absent,
             task_id = (case cfg_task_id config of None \<Rightarrow> Undefined | Some v \<Rightarrow> Defined v),
             billable = billable,
             start = startDateTimeUtc worklog,
             stop = Absent,
             duration = timeSpentSeconds worklog,
             description = trim description,
             created_with = createdWithOrDefault (cfg_created_with config),
             tags = Absent\<rparr>
      in case cfg_project_id config of
           None \<Rightarrow> payload
         | Some p \<Rightarrow> if truthyNumber p then payload\<lparr>project_id := Defined p\<rparr> else payload)"

definition transformTempoWorklogsToToggl ::
  "TempoWorklog list \<Rightarrow> TempoToTogglConfig \<Rightarrow> TogglTimeEntryPayload list" where
  "transformTempoWorklogsToToggl worklogs config =
     map (\<lambda>worklog. transformTempoWorklogToToggl worklog config) worklogs"

text \<open>
  The earlier revision of the same function, kept in \<open>src/lib/transform.ts\<close>: it knows no
  issue key and no task.
\<close>

definition composeDescription_rev1 :: "TempoWorklog \<Rightarrow> string" where
  "composeDescription_rev1 worklog =
     (if truthy (issueSelf worklog)
      then orEmpty (issueSelf worklog) @ '' | '' @ orEmpty (worklogDescription worklog)
      else orEmpty (worklogDescription worklog))"

definition transformTempoWorklogToToggl_rev1 ::
  "TempoWorklog \<Rightarrow> TempoToTogglConfig \<Rightarrow> TogglTimeEntryPayload" where
  "transformTempoWorklogToToggl_rev1 worklog config =
     (let billable = (billableSeconds worklog > 0);
          description = composeDescription_rev1 worklog;
          payload =
            \<lparr>workspace_id = cfg_workspace_id config,
             project_id = Absent,
             task_id = Absent,
             billable = billable,
             start = startDateTimeUtc worklog,
             stop = Absent,
             duration = timeSpentSeconds worklog,
             description = trim description,
             created_with = createdWithOrDefault (cfg_created_with config),
             tags = Absent\<rparr>
      in case cfg_project_id config of
           None \<Rightarrow> payload
         | Some p \<Rightarrow> if truthyNumber p then payload\<lparr>project_id := Defined p\<rparr> else payload)"

subsection \<open>The request body of a creation\<close>

text \<open>
  \<open>createTimeEntry\<close> sends \<open>JSON.stringify(entry)\<close>.  A property that is absent or holds
  \<open>undefined\<close> does not appear in the text, and a number that is not finite is written as
  \<open>null\<close>.  The body is the list of its members, in the order of the properties.
\<close>

datatype json = JNull | JNumber int | JBool bool | JString string | JStrings "string list"

fun jsonNumber :: "number \<Rightarrow> json" where
  "jsonNumber (Num n) = JNumber n"
| "jsonNumber NaN = JNull"
| "jsonNumber PlusInfinity = JNull"
| "jsonNumber MinusInfinity = JNull"

fun jsonMember :: "string \<Rightarrow> ('a \<Rightarrow> json) \<Rightarrow> 'a slot \<Rightarrow> (string \<times> json) list" where
  "jsonMember k f Absent = []"
| "jsonMember k f Undefined = []"
| "jsonMember k f (Defined v) = [(k, f v)]"

definition jsonBody :: "TogglTimeEntryPayload \<Rightarrow> (string \<times> json) list" where
  "jsonBody entry =
     [(''workspace_id'', jsonNumber (workspace_id entry))]
     @ jsonMember ''task_id'' jsonNumber (task_id entry)
     @ [(''billable'', JBool (billable entry)),
        (''start'', JString (start entry))]
     @ jsonMember ''stop'' JString (stop entry)
     @ [(''duration'', JNumber (duration entry)),
        (''description'', JString (description entry)),
        (''created_with'', JString (created_with entry))]
     @ jsonMember ''project_id'' jsonNumber (project_id entry)
     @ jsonMember ''tags'' JStrings (tags entry)"

section \<open>The API clients\<close>

text \<open>
  An asynchronous operation on the outside world: from a state of the world it yields a
  value or a thrown value (a rejected promise), and the next state of the world.
\<close>

type_synonym ('w, 'a) io = "'w \<Rightarrow> (js_thrown + 'a) \<times> 'w"

text \<open>
  A collaborator that records its calls: the world is paired with a log of the arguments
  and outcomes of the calls made so far.
\<close>

definition logged ::
  "('a \<Rightarrow> ('w, 'b) io) \<Rightarrow> 'a \<Rightarrow> ('w \<times> ('a \<times> (js_thrown + 'b)) list, 'b) io" where
  "logged f a = (\<lambda>(w, log). case f a w of (r, w') \<Rightarrow> (r, (w', log @ [(a, r)])))"

subsection \<open>Enrichment (\<open>TempoClient\<close>)\<close>

record IssueDetails =
  detailsKey :: string
  detailsSummary :: string

text \<open>\<open>Set.prototype.add\<close> on a set kept in insertion order.\<close>

definition setAdd :: "'a \<Rightarrow> 'a list \<Rightarrow> 'a list" where
  "setAdd x xs = (if x \<in> set xs then xs else xs @ [x])"

text \<open>The \<open>forEach\<close> loop that fills \<open>uniqueIssueUrls\<close>.\<close>

fun collectIssueUrls :: "TempoWorklog list \<Rightarrow> string list \<Rightarrow> string list" where
  "collectIssueUrls [] uniqueIssueUrls = uniqueIssueUrls"
| "collectIssueUrls (worklog # rest) uniqueIssueUrls =
     (if truthy (issueSelf worklog)
      then collectIssueUrls rest (setAdd (orEmpty (issueSelf worklog)) uniqueIssueUrls)
      else collectIssueUrls rest uniqueIssueUrls)"

text \<open>
  The lookups, one for each element of \<open>Array.from(uniqueIssueUrls)\<close>.  The requests start
  in this order; the model lets each lookup finish before the next one starts.  A lookup
  that throws stores empty details.
\<close>

fun fetchIssues ::
  "(string \<Rightarrow> ('w, IssueDetails) io) \<Rightarrow> string list \<Rightarrow> (string \<rightharpoonup> IssueDetails) \<Rightarrow> 'w
   \<Rightarrow> (string \<rightharpoonup> IssueDetails) \<times> 'w" where
  "fetchIssues fetchJiraIssue [] issueDetailsMap w = (issueDetailsMap, w)"
| "fetchIssues fetchJiraIssue (url # urls) issueDetailsMap w =
     (case fetchJiraIssue url w of
        (Inr details, w') \<Rightarrow>
          fetchIssues fetchJiraIssue urls (issueDetailsMap(url \<mapsto> details)) w'
      | (Inl error, w') \<Rightarrow>
          fetchIssues fetchJiraIssue urls
            (issueDetailsMap(url \<mapsto> \<lparr>detailsKey = [], detailsSummary = []\<rparr>)) w')"

text \<open>The callback of the final \<open>worklogs.map\<close>.\<close>

definition applyDetails :: "(string \<rightharpoonup> IssueDetails) \<Rightarrow> TempoWorklog \<Rightarrow> TempoWorklog" where
  "applyDetails issueDetailsMap worklog =
     (case issue worklog of
        None \<Rightarrow> worklog
      | Some i \<Rightarrow>
          (if self i \<noteq> [] then
             (case issueDetailsMap (self i) of
                None \<Rightarrow> worklog
              | Some details \<Rightarrow>
                  worklog\<lparr>issue := Some (i\<lparr>key := Some (detailsKey details),
                                              summary := Some (detailsSummary details)\<rparr>)\<rparr>)
           else worklog))"

definition enrichWorklogsWithIssueDetails ::
  "(string \<Rightarrow> ('w, IssueDetails) io) \<Rightarrow> TempoWorklog list \<Rightarrow> 'w \<Rightarrow> TempoWorklog list \<times> 'w" where
  "enrichWorklogsWithIssueDetails fetchJiraIssue worklogs w =
     (let uniqueIssueUrls = collectIssueUrls worklogs [] in
      case fetchIssues fetchJiraIssue uniqueIssueUrls Map.empty w of
        (issueDetailsMap, w') \<Rightarrow> (map (applyDetails issueDetailsMap) worklogs, w'))"

subsection \<open>Creation (\<open>TogglClient\<close>)\<close>

text \<open>
  Of a time entry that the sink returns the program reads the start only, so fetched and
  created entries are values of \<^typ>\<open>ExistingEntry\<close>.
\<close>

type_synonym TogglTimeEntry = ExistingEntry

record FailedEntry =
  entry :: TogglTimeEntryPayload
  error :: string

record CreateEntriesResult =
  success :: "TogglTimeEntry list"
  failed :: "FailedEntry list"
  successCount :: nat
  failedCount :: nat

text \<open>\<open>error instanceof Error ? error.message : String(error)\<close>.\<close>

fun messageOrString :: "js_thrown \<Rightarrow> string" where
  "messageOrString (ErrorObject n m) = m"
| "messageOrString (NonErrorValue s) = s"

text \<open>The \<open>for\<close> loop of \<open>createTimeEntries\<close>, with the accumulated \<open>result\<close>.\<close>

fun createLoop ::
  "(TogglTimeEntryPayload \<Rightarrow> ('w, TogglTimeEntry) io) \<Rightarrow> TogglTimeEntryPayload list
   \<Rightarrow> CreateEntriesResult \<Rightarrow> 'w \<Rightarrow> CreateEntriesResult \<times> 'w" where
  "createLoop createTimeEntry [] result w = (result, w)"
| "createLoop createTimeEntry (e # entries) result w =
     (case createTimeEntry e w of
        (Inr createdEntry, w') \<Rightarrow>
          createLoop createTimeEntry entries
            (result\<lparr>success := success result @ [createdEntry],
                    successCount := successCount result + 1\<rparr>) w'
      | (Inl thrown, w') \<Rightarrow>
          createLoop createTimeEntry entries
            (result\<lparr>failed := failed result @ [\<lparr>entry = e, error = messageOrString thrown\<rparr>],
                    failedCount := failedCount result + 1\<rparr>) w')"

definition createTimeEntries ::
  "(TogglTimeEntryPayload \<Rightarrow> ('w, TogglTimeEntry) io) \<Rightarrow> TogglTimeEntryPayload list
   \<Rightarrow> 'w \<Rightarrow> CreateEntriesResult \<times> 'w" where
  "createTimeEntries createTimeEntry entries w =
     createLoop createTimeEntry entries
       \<lparr>success = [], failed = [], successCount = 0, failedCount = 0\<rparr> w"

text \<open>
  The two clients as the sync service sees them: objects with methods.  The methods that
  wrap one HTTP request each (\<open>fetchWorklogs\<close>, \<open>fetchJiraIssue\<close>, \<open>fetchTimeEntries\<close>,
  \<open>createTimeEntry\<close>) are parameters.
\<close>

record 'w TempoClient =
  fetchWorklogs :: "string \<Rightarrow> string \<Rightarrow> ('w, TempoWorklog list) io"
  enrichWorklogsWithIssueDetails_method :: "TempoWorklog list \<Rightarrow> ('w, TempoWorklog list) io"

record 'w TogglClient =
  fetchTimeEntries :: "string \<Rightarrow> string \<Rightarrow> ('w, TogglTimeEntry list) io"
  createTimeEntries_method :: "TogglTimeEntryPayload list \<Rightarrow> ('w, CreateEntriesResult) io"

text \<open>The classes \<open>TempoClient\<close> and \<open>TogglClient\<close> of the repository.\<close>

definition newTempoClient ::
  "(string \<Rightarrow> string \<Rightarrow> ('w, TempoWorklog list) io) \<Rightarrow> (string \<Rightarrow> ('w, IssueDetails) io)
   \<Rightarrow> 'w TempoClient" where
  "newTempoClient fetchWorklogs' fetchJiraIssue =
     \<lparr>fetchWorklogs = fetchWorklogs',
      enrichWorklogsWithIssueDetails_method =
        (\<lambda>worklogs w. case enrichWorklogsWithIssueDetails fetchJiraIssue worklogs w of
                         (enriched, w') \<Rightarrow> (Inr enriched, w'))\<rparr>"

definition newTogglClient ::
  "(string \<Rightarrow> string \<Rightarrow> ('w, TogglTimeEntry list) io)
   \<Rightarrow> (TogglTimeEntryPayload \<Rightarrow> ('w, TogglTimeEntry) io) \<Rightarrow> 'w TogglClient" where
  "newTogglClient fetchTimeEntries' createTimeEntry =
     \<lparr>fetchTimeEntries = fetchTimeEntries',
      createTimeEntries_method =
        (\<lambda>entries w. case createTimeEntries createTimeEntry entries w of
                        (result, w') \<Rightarrow> (Inr result, w'))\<rparr>"

section \<open>The sync service (\<open>services/sync-service.ts\<close>)\<close>

record SyncResult =
  tempoEntriesFetched :: nat
  togglEntriesFetched :: nat
  uniqueEntriesCount :: nat
  duplicatesSkipped :: nat
  successfullyCreated :: nat
  failedToCreate :: nat
  errors :: "string list"

record 'w SyncServiceConfig =
  tempoClient :: "'w TempoClient"
  togglClient :: "'w TogglClient"
  transformConfig :: TempoToTogglConfig

text \<open>
  The body of the \<open>try\<close> block.  The array \<open>errors\<close> is empty until the creation step has
  returned, and nothing throws after that, so a throw always leaves it empty.
\<close>

definition syncAttempt ::
  "date_parse \<Rightarrow> 'w SyncServiceConfig \<Rightarrow> string \<Rightarrow> string \<Rightarrow> ('w, SyncResult) io" where
  "syncAttempt dp config fromDate toDate w =
     (case fetchWorklogs (tempoClient config) fromDate toDate w of
        (Inl t, w1) \<Rightarrow> (Inl t, w1)
      | (Inr tempoWorklogs, w1) \<Rightarrow>
     (case enrichWorklogsWithIssueDetails_method (tempoClient config) tempoWorklogs w1 of
        (Inl t, w2) \<Rightarrow> (Inl t, w2)
      | (Inr enrichedWorklogs, w2) \<Rightarrow>
     (case fetchTimeEntries (togglClient config) fromDate toDate w2 of
        (Inl t, w3) \<Rightarrow> (Inl t, w3)
      | (Inr togglEntries, w3) \<Rightarrow>
     (let transformedEntries =
            transformTempoWorklogsToToggl enrichedWorklogs (transformConfig config)
      in case filterDuplicateEntries dp transformedEntries togglEntries of
           Inl t \<Rightarrow> (Inl t, w3)
         | Inr deduplicationResult \<Rightarrow>
     (case createTimeEntries_method (togglClient config)
             (uniqueEntries deduplicationResult) w3 of
        (Inl t, w4) \<Rightarrow> (Inl t, w4)
      | (Inr createResult, w4) \<Rightarrow>
          (let errors =
                 (if length (failed createResult) > 0
                  then [] @ map (\<lambda>f. ''Failed to create entry: '' @ error f)
                                (failed createResult)
                  else [])
           in (Inr \<lparr>tempoEntriesFetched = length tempoWorklogs,
                    togglEntriesFetched = length togglEntries,
                    uniqueEntriesCount = length (uniqueEntries deduplicationResult),
                    duplicatesSkipped = skippedCount deduplicationResult,
                    successfullyCreated = successCount createResult,
                    failedToCreate = failedCount createResult,
                    errors = errors\<rparr>, w4)))))))"

text \<open>\<open>error instanceof Error ? error.message : "Unknown error occurred"\<close>.\<close>

fun messageOrUnknown :: "js_thrown \<Rightarrow> string" where
  "messageOrUnknown (ErrorObject n m) = m"
| "messageOrUnknown (NonErrorValue s) = ''Unknown error occurred''"

text \<open>The result that the \<open>catch\<close> block returns.\<close>

definition failureResult :: "js_thrown \<Rightarrow> SyncResult" where
  "failureResult thrown =
     \<lparr>tempoEntriesFetched = 0,
      togglEntriesFetched = 0,
      uniqueEntriesCount = 0,
      duplicatesSkipped = 0,
      successfullyCreated = 0,
      failedToCreate = 0,
      errors = [] @ [messageOrUnknown thrown]\<rparr>"

text \<open>
  \<open>syncTimeEntries\<close>.  Its outcome has the general shape of an asynchronous method: a result
  or a thrown value.
\<close>

definition syncTimeEntries ::
  "date_parse \<Rightarrow> 'w SyncServiceConfig \<Rightarrow> string \<Rightarrow> string \<Rightarrow> ('w, SyncResult) io" where
  "syncTimeEntries dp config fromDate toDate w =
     (case syncAttempt dp config fromDate toDate w of
        (Inr result, w') \<Rightarrow> (Inr result, w')
      | (Inl thrown, w') \<Rightarrow> (Inr (failureResult thrown), w'))"

section \<open>Notions used to state the properties\<close>

text \<open>
  A candidate matches an existing record when normalising its start gives the same result
  as normalising the start of that record.
\<close>

definition startMatchesExisting ::
  "date_parse \<Rightarrow> ExistingEntry list \<Rightarrow> TogglTimeEntryPayload \<Rightarrow> bool" where
  "startMatchesExisting dp existingEntries e =
     (\<exists>x \<in> set existingEntries.
        normalizeTimestamp dp (start e) = normalizeTimestamp dp (existingStart x))"

subsection \<open>Example data\<close>

text \<open>The entries of \<open>lib/deduplication.test.ts\<close>.\<close>

definition testEntry :: "string \<Rightarrow> string \<Rightarrow> TogglTimeEntryPayload" where
  "testEntry s d =
     \<lparr>workspace_id = Num 123, project_id = Absent, task_id = Absent, billable = True,
      start = s, stop = Absent, duration = 3600, description = d, created_with = ''test'',
      tags = Absent\<rparr>"

definition testNewEntries :: "TogglTimeEntryPayload list" where
  "testNewEntries =
     [testEntry ''2025-10-01T09:00:00Z'' ''Entry 1'',
      testEntry ''2025-10-01T10:00:00Z'' ''Entry 2'',
      testEntry ''2025-10-01T11:00:00Z'' ''Entry 3'']"

definition testExistingEntries :: "ExistingEntry list" where
  "testExistingEntries = [\<lparr>existingStart = ''2025-10-01T09:00:00+00:00''\<rparr>]"

text \<open>Two candidates for the same instant, written with different offsets.\<close>

definition twinEntries :: "TogglTimeEntryPayload list" where
  "twinEntries =
     [testEntry ''2025-10-01T10:00:00Z'' ''Entry A'',
      testEntry ''2025-10-01T12:00:00+02:00'' ''Entry B'']"

subsection \<open>Timestamps and their notations\<close>

text \<open>
  A timestamp in the date-time string format with an explicit offset: the fields of the
  date and the time of day, an optional fraction of milliseconds, and the offset written
  as \<open>Z\<close>, as \<open>+HH:mm\<close> or as \<open>-HH:mm\<close>.  \<open>render\<close> is its text; \<open>instant\<close> is the instant it
  denotes: the date and time of day, less the offset.  \<open>validStamp\<close> bounds the fields; it
  admits the calendar dates of the years 0 to 9999.
\<close>

datatype zone = Zulu | East int int | West int int

record stamp =
  year :: int
  month :: int
  day :: int
  hour :: int
  minute :: int
  second :: int
  millis :: "int option"
  zone :: zone

fun renderZone :: "zone \<Rightarrow> string" where
  "renderZone Zulu = ''Z''"
| "renderZone (East hh mm) = CHR ''+'' # pad2 hh @ CHR '':'' # pad2 mm"
| "renderZone (West hh mm) = CHR ''-'' # pad2 hh @ CHR '':'' # pad2 mm"

fun renderFraction :: "int option \<Rightarrow> string" where
  "renderFraction None = []"
| "renderFraction (Some ms) = CHR ''.'' # pad3 ms"

definition render :: "stamp \<Rightarrow> string" where
  "render t =
     pad4 (year t) @ CHR ''-'' # pad2 (month t) @ CHR ''-'' # pad2 (day t) @ CHR ''T'' #
     pad2 (hour t) @ CHR '':'' # pad2 (minute t) @ CHR '':'' # pad2 (second t) @
     renderFraction (millis t) @ renderZone (zone t)"

fun offsetMinutes :: "zone \<Rightarrow> int" where
  "offsetMinutes Zulu = 0"
| "offsetMinutes (East hh mm) = hh * 60 + mm"
| "offsetMinutes (West hh mm) = - (hh * 60 + mm)"

fun validZone :: "zone \<Rightarrow> bool" where
  "validZone Zulu = True"
| "validZone (East hh mm) = (0 \<le> hh \<and> hh \<le> 23 \<and> 0 \<le> mm \<and> mm \<le> 59)"
| "validZone (West hh mm) = (0 \<le> hh \<and> hh \<le> 23 \<and> 0 \<le> mm \<and> mm \<le> 59)"

definition validStamp :: "stamp \<Rightarrow> bool" where
  "validStamp t =
     (0 \<le> year t \<and> year t \<le> 9999 \<and> 1 \<le> month t \<and> month t \<le> 12
      \<and> 1 \<le> day t \<and> day t \<le> daysInMonth (year t) (month t)
      \<and> 0 \<le> hour t \<and> hour t \<le> 23
      \<and> 0 \<le> minute t \<and> minute t \<le> 59 \<and> 0 \<le> second t \<and> second t \<le> 59
      \<and> (case millis t of None \<Rightarrow> True | Some ms \<Rightarrow> 0 \<le> ms \<and> ms \<le> 999)
      \<and> validZone (zone t))"

definition instant :: "stamp \<Rightarrow> int" where
  "instant t =
     makeTime (year t) (month t) (day t) (hour t) (minute t) (second t)
       (case millis t of None \<Rightarrow> 0 | Some ms \<Rightarrow> ms) (offsetMinutes (zone t))"

definition nineUtc :: stamp where
  "nineUtc = \<lparr>year = 2025, month = 10, day = 1, hour = 9, minute = 0, second = 0,
     millis = None, zone = Zulu\<rparr>"

definition elevenPlusTwo :: stamp where
  "elevenPlusTwo = \<lparr>year = 2025, month = 10, day = 1, hour = 11, minute = 0, second = 0,
     millis = None, zone = East 2 0\<rparr>"

subsection \<open>The description as the specification words it\<close>

text \<open>
  A resolved code or a reference exists when it is a non-empty string.  With a code the
  description is the code, a colon and the original description; with a reference only it
  is the reference, a bar and the original description; otherwise it is the original
  description.  A missing original description is the empty string.
\<close>

definition existing :: "string option \<Rightarrow> string option" where
  "existing x = (case x of None \<Rightarrow> None | Some s \<Rightarrow> if s = [] then None else Some s)"

definition specDescription :: "string option \<Rightarrow> string option \<Rightarrow> string option \<Rightarrow> string" where
  "specDescription code uri original =
     (let d = (case original of None \<Rightarrow> [] | Some s \<Rightarrow> s)
      in case code of
           Some c \<Rightarrow> c @ '': '' @ d
         | None \<Rightarrow> (case uri of Some u \<Rightarrow> u @ '' | '' @ d | None \<Rightarrow> d))"

definition trimmed :: "string \<Rightarrow> bool" where
  "trimmed s = (dropWhile isWhiteSpace s = s \<and> dropWhile isWhiteSpace (rev s) = rev s)"

subsection \<open>Example worklogs and configurations\<close>

text \<open>The worklog and the configurations of \<open>lib/transform.test.ts\<close>.\<close>

definition testWorklog :: "Issue option \<Rightarrow> string option \<Rightarrow> TempoWorklog" where
  "testWorklog i d =
     \<lparr>worklogSelf = ''https://api.tempo.io/4/worklogs/123'',
      tempoWorklogId = 123,
      issue = i,
      timeSpentSeconds = 3600,
      billableSeconds = 3600,
      startDate = ''2025-10-01'',
      startTime = ''09:00:00'',
      startDateTimeUtc = ''2025-10-01T09:00:00Z'',
      worklogDescription = d,
      createdAt = ''2025-10-01T10:00:00Z'',
      updatedAt = ''2025-10-01T10:00:00Z'',
      author = \<lparr>authorSelf = ''https://jira.example.com/user/123'', accountId = ''abc123''\<rparr>,
      attributes = \<lparr>attributesSelf = ''https://api.tempo.io/4/worklogs/123/attributes'',
                    attributeValues = []\<rparr>\<rparr>"

definition resolvedIssue :: Issue where
  "resolvedIssue =
     \<lparr>self = ''https://x/issue/9'', issueId = 9, key = Some ''WEB-1'',
      summary = Some ''Checkout page''\<rparr>"

definition unresolvedIssue :: Issue where
  "unresolvedIssue = \<lparr>self = ''https://x/issue/9'', issueId = 9, key = None, summary = None\<rparr>"

definition testConfig :: TempoToTogglConfig where
  "testConfig =
     \<lparr>cfg_workspace_id = Num 12345, cfg_project_id = Some (Num 67890),
      cfg_task_id = Some (Num 42),
      cfg_created_with = Some ''test-suite''\<rparr>"

definition bareConfig :: TempoToTogglConfig where
  "bareConfig =
     \<lparr>cfg_workspace_id = Num 12345, cfg_project_id = None, cfg_task_id = None,
      cfg_created_with = Some ''test-suite''\<rparr>"

subsection \<open>Outcomes of the issue lookups\<close>

text \<open>
  The details that the enrichment stores for the outcome of a lookup, a worklog with the
  details of its issue attached, and the references of a batch: the truthy \<open>issue.self\<close>
  of its worklogs.
\<close>

fun resolve :: "js_thrown + IssueDetails \<Rightarrow> IssueDetails" where
  "resolve (Inl thrown) = \<lparr>detailsKey = [], detailsSummary = []\<rparr>"
| "resolve (Inr details) = details"

definition withDetails :: "TempoWorklog \<Rightarrow> Issue \<Rightarrow> IssueDetails \<Rightarrow> TempoWorklog" where
  "withDetails worklog i details =
     worklog\<lparr>issue := Some (i\<lparr>key := Some (detailsKey details),
                                 summary := Some (detailsSummary details)\<rparr>)\<rparr>"

definition referencedUrls :: "TempoWorklog list \<Rightarrow> string set" where
  "referencedUrls worklogs =
     {url. \<exists>worklog \<in> set worklogs. issueSelf worklog = Some url \<and> url \<noteq> []}"

text \<open>
  A batch of four worklogs: two refer to the same issue, one has no issue, and the lookup
  of the issue of the remaining one fails.  The world is the list of the requests made.
\<close>

definition brokenIssue :: Issue where
  "brokenIssue = \<lparr>self = ''https://x/issue/7'', issueId = 7, key = None, summary = None\<rparr>"

definition testWorklogs :: "TempoWorklog list" where
  "testWorklogs =
     [testWorklog (Some unresolvedIssue) (Some ''fix bug''),
      testWorklog None (Some ''standup''),
      testWorklog (Some brokenIssue) (Some ''call''),
      testWorklog (Some unresolvedIssue) (Some ''review'')]"

definition notFound :: js_thrown where
  "notFound = ErrorObject ''Error'' ''Failed to fetch Jira issue: 404 Not Found - ''"

definition testLookup :: "string \<Rightarrow> (string list, IssueDetails) io" where
  "testLookup url w =
     (if url = ''https://x/issue/9''
      then (Inr \<lparr>detailsKey = ''WEB-1'', detailsSummary = ''Checkout page''\<rparr>,
            w @ [''fetchJiraIssue''])
      else (Inl notFound, w @ [''fetchJiraIssue'']))"

subsection \<open>Outcomes of the creation requests\<close>

text \<open>
  From the recorded creation requests: the entries created, and the failure records of
  the requests that threw.
\<close>

fun createdOf ::
  "(TogglTimeEntryPayload \<times> (js_thrown + TogglTimeEntry)) list \<Rightarrow> TogglTimeEntry list" where
  "createdOf [] = []"
| "createdOf ((e, Inr created) # tr) = created # createdOf tr"
| "createdOf ((e, Inl thrown) # tr) = createdOf tr"

fun failedOf ::
  "(TogglTimeEntryPayload \<times> (js_thrown + TogglTimeEntry)) list \<Rightarrow> FailedEntry list" where
  "failedOf [] = []"
| "failedOf ((e, Inr created) # tr) = failedOf tr"
| "failedOf ((e, Inl thrown) # tr) = \<lparr>entry = e, error = messageOrString thrown\<rparr> # failedOf tr"

subsection \<open>Example services\<close>

text \<open>
  Collaborators for example runs.  The world is the list of the requests made so far.  The
  creation of the entry that starts at ten o'clock is refused.
\<close>

definition exampleFetchWorklogs ::
  "js_thrown + TempoWorklog list \<Rightarrow> string \<Rightarrow> string \<Rightarrow> (string list, TempoWorklog list) io" where
  "exampleFetchWorklogs outcome fromDate toDate w = (outcome, w @ [''fetchWorklogs''])"

definition exampleFetchTimeEntries ::
  "js_thrown + TogglTimeEntry list \<Rightarrow> string \<Rightarrow> string \<Rightarrow> (string list, TogglTimeEntry list) io" where
  "exampleFetchTimeEntries outcome fromDate toDate w = (outcome, w @ [''fetchTimeEntries''])"

definition badRequest :: js_thrown where
  "badRequest = ErrorObject ''Error'' ''Failed to create time entry: 400 Bad Request - ''"

definition exampleCreateTimeEntry :: "TogglTimeEntryPayload \<Rightarrow> (string list, TogglTimeEntry) io" where
  "exampleCreateTimeEntry e w =
     (if start e = ''2025-10-01T10:00:00Z''
      then (Inl badRequest, w @ [''createTimeEntry''])
      else (Inr \<lparr>existingStart = start e\<rparr>, w @ [''createTimeEntry'']))"

definition exampleService ::
  "js_thrown + TempoWorklog list \<Rightarrow> js_thrown + TogglTimeEntry list
   \<Rightarrow> string list SyncServiceConfig" where
  "exampleService source sink =
     \<lparr>tempoClient = newTempoClient (exampleFetchWorklogs source) testLookup,
      togglClient = newTogglClient (exampleFetchTimeEntries sink) exampleCreateTimeEntry,
      transformConfig = testConfig\<rparr>"

text \<open>Three worklogs that start at nine, ten and eleven o'clock.\<close>

definition threeWorklogs :: "TempoWorklog list" where
  "threeWorklogs =
     [testWorklog None (Some ''Entry 1''),
      (testWorklog None (Some ''Entry 2''))\<lparr>startDateTimeUtc := ''2025-10-01T10:00:00Z''\<rparr>,
      (testWorklog None (Some ''Entry 3''))\<lparr>startDateTimeUtc := ''2025-10-01T11:00:00Z''\<rparr>]"




text \<open>The payloads of the three worklogs.\<close>

definition threePayloads :: "TogglTimeEntryPayload list" where
  "threePayloads = transformTempoWorklogsToToggl threeWorklogs testConfig"

section \<open>Properties of the deduplication\<close>

lemma normalizeTimestamp_parsed:
  "newDate dp s = Some t \<Longrightarrow> normalizeTimestamp dp s = Inr (isoString t)"
  by (simp add: normalizeTimestamp_def toISOString_def)

lemma normalizeTimestamp_unparsed:
  "newDate dp s = None \<Longrightarrow> normalizeTimestamp dp s = Inl invalidTime"
  by (simp add: normalizeTimestamp_def toISOString_def)

lemma normalizeTimestamp_thrown:
  "normalizeTimestamp dp s = Inl t \<Longrightarrow> t = invalidTime \<and> newDate dp s = None"
  by (cases "newDate dp s") (simp_all add: normalizeTimestamp_def toISOString_def)

lemma mapThrow_total:
  "\<forall>x \<in> set xs. f x = Inr (g x) \<Longrightarrow> mapThrow f xs = Inr (map g xs)"
  by (induction xs) simp_all

lemma mapThrow_thrown:
  "mapThrow f xs = Inl t \<Longrightarrow> \<exists>x \<in> set xs. f x = Inl t"
  by (induction xs) (auto split: sum.splits)

lemma mapThrow_throws:
  "x \<in> set xs \<Longrightarrow> f x = Inl t \<Longrightarrow> \<exists>t'. mapThrow f xs = Inl t'"
  by (induction xs) (auto split: sum.splits)

lemma filterLoop_total:
  "\<forall>e \<in> set es. normalizeTimestamp dp (start e) = Inr (g e) \<Longrightarrow>
   filterLoop dp S es (kept, dups) =
     Inr (kept @ filter (\<lambda>e. g e \<notin> S) es, dups @ filter (\<lambda>e. g e \<in> S) es)"
  by (induction es arbitrary: kept dups) simp_all

lemma filterLoop_thrown:
  "filterLoop dp S es acc = Inl t \<Longrightarrow>
   \<exists>e \<in> set es. normalizeTimestamp dp (start e) = Inl t"
  by (induction dp S es acc rule: filterLoop.induct)
     (auto split: sum.splits if_splits simp: Let_def)

lemma filterLoop_throws:
  "e \<in> set es \<Longrightarrow> normalizeTimestamp dp (start e) = Inl t \<Longrightarrow>
   \<exists>t'. filterLoop dp S es acc = Inl t'"
  by (induction dp S es acc rule: filterLoop.induct)
     (auto split: sum.splits if_splits simp: Let_def)

text \<open>
  When every start parses, the stateful loop computes the two filters of the candidates.
\<close>

lemma filterDuplicateEntries_total:
  assumes new_ok: "\<forall>e \<in> set newEntries. newDate dp (start e) \<noteq> None"
    and ex_ok: "\<forall>x \<in> set existingEntries. newDate dp (existingStart x) \<noteq> None"
  shows "filterDuplicateEntries dp newEntries existingEntries =
     Inr \<lparr>uniqueEntries = filter (\<lambda>e. \<not> startMatchesExisting dp existingEntries e) newEntries,
          duplicates = filter (startMatchesExisting dp existingEntries) newEntries,
          skippedCount = length (filter (startMatchesExisting dp existingEntries) newEntries)\<rparr>"
proof -
  let ?n = "\<lambda>s. isoString (the (newDate dp s))"
  have n_new: "\<forall>e \<in> set newEntries. normalizeTimestamp dp (start e) = Inr (?n (start e))"
    using new_ok by (auto simp: normalizeTimestamp_parsed)
  have n_ex: "\<forall>x \<in> set existingEntries.
      normalizeTimestamp dp (existingStart x) = Inr (?n (existingStart x))"
    using ex_ok by (auto simp: normalizeTimestamp_parsed)
  have m: "mapThrow (\<lambda>entry. normalizeTimestamp dp (existingStart entry)) existingEntries =
      Inr (map (\<lambda>x. ?n (existingStart x)) existingEntries)"
    using n_ex by (rule mapThrow_total)
  let ?S = "set (map (\<lambda>x. ?n (existingStart x)) existingEntries)"
  have l: "filterLoop dp ?S newEntries ([], []) =
      Inr ([] @ filter (\<lambda>e. ?n (start e) \<notin> ?S) newEntries,
           [] @ filter (\<lambda>e. ?n (start e) \<in> ?S) newEntries)"
    using n_new by (rule filterLoop_total)
  have dup: "\<forall>e \<in> set newEntries.
      (?n (start e) \<in> ?S) = startMatchesExisting dp existingEntries e"
    using n_new n_ex by (auto simp: startMatchesExisting_def)
  have f1: "filter (\<lambda>e. ?n (start e) \<in> ?S) newEntries =
      filter (startMatchesExisting dp existingEntries) newEntries"
    using dup by (intro filter_cong) auto
  have f2: "filter (\<lambda>e. ?n (start e) \<notin> ?S) newEntries =
      filter (\<lambda>e. \<not> startMatchesExisting dp existingEntries e) newEntries"
    using dup by (intro filter_cong) auto
  show ?thesis
    unfolding filterDuplicateEntries_def m using l f1 f2 by (simp add: Let_def)
qed

text \<open>The only value that the deduplication throws is the \<open>RangeError\<close> of \<open>toISOString\<close>.\<close>

lemma filterDuplicateEntries_thrown:
  assumes "filterDuplicateEntries dp newEntries existingEntries = Inl t"
  shows "t = invalidTime"
  using assms unfolding filterDuplicateEntries_def
  by (auto split: sum.splits simp: Let_def dest!: mapThrow_thrown filterLoop_thrown
      normalizeTimestamp_thrown)

lemma filterDuplicateEntries_throws:
  assumes "(\<exists>e \<in> set newEntries. newDate dp (start e) = None)
         \<or> (\<exists>x \<in> set existingEntries. newDate dp (existingStart x) = None)"
  shows "filterDuplicateEntries dp newEntries existingEntries = Inl invalidTime"
proof -
  have "\<exists>t. filterDuplicateEntries dp newEntries existingEntries = Inl t"
  proof (cases "\<exists>x \<in> set existingEntries. newDate dp (existingStart x) = None")
    case True
    then obtain x where "x \<in> set existingEntries"
      "normalizeTimestamp dp (existingStart x) = Inl invalidTime"
      by (auto simp: normalizeTimestamp_unparsed)
    then obtain t' where
      "mapThrow (\<lambda>entry. normalizeTimestamp dp (existingStart entry)) existingEntries = Inl t'"
      using mapThrow_throws [where f = "\<lambda>entry. normalizeTimestamp dp (existingStart entry)"]
      by blast
    then show ?thesis by (simp add: filterDuplicateEntries_def)
  next
    case False
    with assms obtain e where "e \<in> set newEntries"
      "normalizeTimestamp dp (start e) = Inl invalidTime"
      by (auto simp: normalizeTimestamp_unparsed)
    then have "\<And>S. \<exists>t'. filterLoop dp S newEntries ([], []) = Inl t'"
      by (rule filterLoop_throws)
    then show ?thesis
      unfolding filterDuplicateEntries_def
      by (auto split: sum.splits simp: Let_def) (metis Inl_Inr_False)
  qed
  then show ?thesis using filterDuplicateEntries_thrown by blast
qed

lemma subseq_pair_filter:
  assumes "i < j" "j < length xs" "P (xs ! i)" "P (xs ! j)"
  shows "subseq [xs ! i, xs ! j] (filter P xs)"
proof -
  have "subseq [xs ! i, xs ! j] xs"
  proof -
    have "xs = take i xs @ xs ! i # drop (Suc i) xs"
      using assms by (simp add: id_take_nth_drop)
    moreover have "xs ! j \<in> set (drop (Suc i) xs)"
    proof -
      have "drop (Suc i) xs ! (j - Suc i) = xs ! j" using assms by simp
      moreover have "j - Suc i < length (drop (Suc i) xs)" using assms by simp
      ultimately show ?thesis by (metis nth_mem)
    qed
    then have "subseq [xs ! j] (drop (Suc i) xs)" by (simp add: subseq_singleton_left)
    then have "subseq ([xs ! i] @ [xs ! j]) ([xs ! i] @ drop (Suc i) xs)"
      by (intro list_emb_append_mono) simp_all
    then have "subseq [xs ! i, xs ! j] (take i xs @ xs ! i # drop (Suc i) xs)"
      by (simp add: list_emb_append2)
    ultimately show ?thesis by simp
  qed
  then have "subseq (filter P [xs ! i, xs ! j]) (filter P xs)"
    by (rule subseq_filter)
  then show ?thesis using assms by simp
qed

subsection \<open>Normalised forms of the example timestamps\<close>

lemma normalizeTimestamp_Inr_parsed:
  "normalizeTimestamp dp s = Inr n \<Longrightarrow> \<exists>t. newDate dp s = Some t"
  by (cases "newDate dp s") (simp_all add: normalizeTimestamp_def toISOString_def)

lemma norm_0900Z:
  "normalizeTimestamp isoParse ''2025-10-01T09:00:00Z'' = Inr ''2025-10-01T09:00:00.000Z''"
  by code_simp

lemma norm_1000Z:
  "normalizeTimestamp isoParse ''2025-10-01T10:00:00Z'' = Inr ''2025-10-01T10:00:00.000Z''"
  by code_simp

lemma norm_1100Z:
  "normalizeTimestamp isoParse ''2025-10-01T11:00:00Z'' = Inr ''2025-10-01T11:00:00.000Z''"
  by code_simp

lemma norm_0900_utc:
  "normalizeTimestamp isoParse ''2025-10-01T09:00:00+00:00'' = Inr ''2025-10-01T09:00:00.000Z''"
  by code_simp

lemma norm_1100_east:
  "normalizeTimestamp isoParse ''2025-10-01T11:00:00+02:00'' = Inr ''2025-10-01T09:00:00.000Z''"
  by code_simp

lemma norm_1200_east:
  "normalizeTimestamp isoParse ''2025-10-01T12:00:00+02:00'' = Inr ''2025-10-01T10:00:00.000Z''"
  by code_simp

lemmas norm_examples =
  norm_0900Z norm_1000Z norm_1100Z norm_0900_utc norm_1100_east norm_1200_east

lemmas parsed_examples = norm_examples [THEN normalizeTimestamp_Inr_parsed]

text \<open>
  Claim C1.  For candidates and existing records whose starts all parse,
  \<open>filterDuplicateEntries\<close> returns a result in which a candidate is among the duplicates
  exactly when its normalised start equals the normalised start of some existing record,
  and among the unique entries otherwise; the two lists together are a permutation of the
  candidates, each keeps the order of the candidates, and \<open>skippedCount\<close> is the length of
  \<open>duplicates\<close>.  No candidates give empty lists and count 0; no existing records make every
  candidate unique.
\<close>

theorem filterDuplicateEntries_partition:
  assumes new_ok: "\<forall>e \<in> set newEntries. newDate dp (start e) \<noteq> None"
    and ex_ok: "\<forall>x \<in> set existingEntries. newDate dp (existingStart x) \<noteq> None"
  shows "\<exists>r. filterDuplicateEntries dp newEntries existingEntries = Inr r
     \<and> duplicates r = filter (startMatchesExisting dp existingEntries) newEntries
     \<and> uniqueEntries r = filter (\<lambda>e. \<not> startMatchesExisting dp existingEntries e) newEntries
     \<and> (\<forall>e \<in> set newEntries.
           (e \<in> set (duplicates r) \<longleftrightarrow> startMatchesExisting dp existingEntries e)
         \<and> (e \<in> set (uniqueEntries r) \<longleftrightarrow> \<not> startMatchesExisting dp existingEntries e))
     \<and> mset (uniqueEntries r @ duplicates r) = mset newEntries
     \<and> subseq (uniqueEntries r) newEntries
     \<and> subseq (duplicates r) newEntries
     \<and> skippedCount r = length (duplicates r)
     \<and> (newEntries = [] \<longrightarrow> uniqueEntries r = [] \<and> duplicates r = [] \<and> skippedCount r = 0)
     \<and> (existingEntries = [] \<longrightarrow> uniqueEntries r = newEntries \<and> duplicates r = [])"
proof -
  have emp: "\<And>e. startMatchesExisting dp [] e = False"
    by (simp add: startMatchesExisting_def)
  show ?thesis
    unfolding filterDuplicateEntries_total [OF new_ok ex_ok]
    by (intro exI [where x = "\<lparr>uniqueEntries =
            filter (\<lambda>e. \<not> startMatchesExisting dp existingEntries e) newEntries,
          duplicates = filter (startMatchesExisting dp existingEntries) newEntries,
          skippedCount =
            length (filter (startMatchesExisting dp existingEntries) newEntries)\<rparr>"])
       (auto simp: emp)
qed

theorem filterDuplicateEntries_partition_witness:
  "list_all (\<lambda>e. newDate isoParse (start e) \<noteq> None) testNewEntries
   \<and> list_all (\<lambda>x. newDate isoParse (existingStart x) \<noteq> None) testExistingEntries
   \<and> (\<exists>r. filterDuplicateEntries isoParse testNewEntries testExistingEntries = Inr r
        \<and> duplicates r = [testEntry ''2025-10-01T09:00:00Z'' ''Entry 1'']
        \<and> uniqueEntries r = [testEntry ''2025-10-01T10:00:00Z'' ''Entry 2'',
                              testEntry ''2025-10-01T11:00:00Z'' ''Entry 3'']
        \<and> skippedCount r = 1)"
proof -
  have h1: "\<forall>e \<in> set testNewEntries. newDate isoParse (start e) \<noteq> None"
    by (simp add: testNewEntries_def testEntry_def parsed_examples)
  have h2: "\<forall>x \<in> set testExistingEntries. newDate isoParse (existingStart x) \<noteq> None"
    by (simp add: testExistingEntries_def parsed_examples)
  have d: "filter (startMatchesExisting isoParse testExistingEntries) testNewEntries =
      [testEntry ''2025-10-01T09:00:00Z'' ''Entry 1'']"
    by (simp add: startMatchesExisting_def testExistingEntries_def testNewEntries_def
        testEntry_def norm_examples)
  have u: "filter (\<lambda>e. \<not> startMatchesExisting isoParse testExistingEntries e) testNewEntries =
      [testEntry ''2025-10-01T10:00:00Z'' ''Entry 2'',
       testEntry ''2025-10-01T11:00:00Z'' ''Entry 3'']"
    by (simp add: startMatchesExisting_def testExistingEntries_def testNewEntries_def
        testEntry_def norm_examples)
  from filterDuplicateEntries_partition [OF h1 h2] obtain r where
    "filterDuplicateEntries isoParse testNewEntries testExistingEntries = Inr r"
    "duplicates r = filter (startMatchesExisting isoParse testExistingEntries) testNewEntries"
    "uniqueEntries r =
       filter (\<lambda>e. \<not> startMatchesExisting isoParse testExistingEntries e) testNewEntries"
    "skippedCount r = length (duplicates r)"
    by blast
  then show ?thesis using h1 h2 d u by (simp add: list_all_iff)
qed

text \<open>
  Claim C10.  The deduplication compares a candidate with the existing records only: two
  candidates at different positions whose normalised starts are equal, and equal to that
  of no existing record, are both kept among the unique entries (as two entries, in their
  order), and neither is among the duplicates.
\<close>

theorem filterDuplicateEntries_keeps_batch_twins:
  assumes new_ok: "\<forall>e \<in> set newEntries. newDate dp (start e) \<noteq> None"
    and ex_ok: "\<forall>x \<in> set existingEntries. newDate dp (existingStart x) \<noteq> None"
    and ij: "i < j" "j < length newEntries"
    and same: "normalizeTimestamp dp (start (newEntries ! i)) =
               normalizeTimestamp dp (start (newEntries ! j))"
    and fresh: "\<not> startMatchesExisting dp existingEntries (newEntries ! i)"
  shows "\<exists>r. filterDuplicateEntries dp newEntries existingEntries = Inr r
     \<and> subseq [newEntries ! i, newEntries ! j] (uniqueEntries r)
     \<and> newEntries ! i \<notin> set (duplicates r) \<and> newEntries ! j \<notin> set (duplicates r)"
proof -
  have fresh': "\<not> startMatchesExisting dp existingEntries (newEntries ! j)"
    using fresh same by (simp add: startMatchesExisting_def)
  have "subseq [newEntries ! i, newEntries ! j]
      (filter (\<lambda>e. \<not> startMatchesExisting dp existingEntries e) newEntries)"
    using ij fresh fresh' by (intro subseq_pair_filter) simp_all
  then show ?thesis
    unfolding filterDuplicateEntries_total [OF new_ok ex_ok]
    using fresh fresh' by simp
qed

theorem filterDuplicateEntries_keeps_batch_twins_witness:
  "normalizeTimestamp isoParse (start (twinEntries ! 0)) =
     normalizeTimestamp isoParse (start (twinEntries ! 1))
   \<and> \<not> startMatchesExisting isoParse testExistingEntries (twinEntries ! 0)
   \<and> (\<exists>r. filterDuplicateEntries isoParse twinEntries testExistingEntries = Inr r
        \<and> subseq twinEntries (uniqueEntries r)
        \<and> twinEntries ! 0 \<notin> set (duplicates r) \<and> twinEntries ! 1 \<notin> set (duplicates r))"
proof -
  have h1: "\<forall>e \<in> set twinEntries. newDate isoParse (start e) \<noteq> None"
    by (simp add: twinEntries_def testEntry_def parsed_examples)
  have h2: "\<forall>x \<in> set testExistingEntries. newDate isoParse (existingStart x) \<noteq> None"
    by (simp add: testExistingEntries_def parsed_examples)
  have h3: "(0::nat) < 1" "1 < length twinEntries"
    by (simp_all add: twinEntries_def)
  have h4: "normalizeTimestamp isoParse (start (twinEntries ! 0)) =
      normalizeTimestamp isoParse (start (twinEntries ! 1))"
    by (simp add: twinEntries_def testEntry_def norm_examples)
  have h5: "\<not> startMatchesExisting isoParse testExistingEntries (twinEntries ! 0)"
    by (simp add: startMatchesExisting_def testExistingEntries_def twinEntries_def
        testEntry_def norm_examples)
  have t: "[twinEntries ! 0, twinEntries ! 1] = twinEntries"
    by (simp add: twinEntries_def)
  from filterDuplicateEntries_keeps_batch_twins [OF h1 h2 h3 h4 h5] h4 h5
  show ?thesis unfolding t by simp
qed

text \<open>
  Claim C8.  \<open>normalizeTimestamp\<close> throws exactly for the strings that \<open>Date\<close> does not accept.
  For a string that \<open>Date.parse\<close> rejects it throws the \<open>RangeError\<close> of \<open>toISOString\<close>, and the
  error reaches the caller: \<open>filterDuplicateEntries\<close> throws it whenever such a string is the
  start of a candidate or of an existing record.  For a string that \<open>Date.parse\<close> accepts,
  with a time value in the range of \<open>Date\<close>, it returns the text of that time value, whether
  or not the string is a timestamp of ISO 8601: the program makes no check of its own.
\<close>

theorem normalizeTimestamp_unparsable_throws:
  "(dp s = None \<longrightarrow>
      normalizeTimestamp dp s = Inl invalidTime
      \<and> (\<forall>newEntries existingEntries.
            s \<in> start ` set newEntries \<or> s \<in> existingStart ` set existingEntries \<longrightarrow>
            filterDuplicateEntries dp newEntries existingEntries = Inl invalidTime))
   \<and> (\<forall>t. dp s = Some t \<and> \<bar>t\<bar> \<le> 8640000000000000 \<longrightarrow>
          normalizeTimestamp dp s = Inr (isoString t))
   \<and> errName invalidTime = ''RangeError''"
proof -
  have a: "normalizeTimestamp dp s = Inl invalidTime" if "dp s = None"
    using that by (simp add: normalizeTimestamp_unparsed newDate_def)
  have b: "filterDuplicateEntries dp newEntries existingEntries = Inl invalidTime"
    if "dp s = None"
      and "s \<in> start ` set newEntries \<or> s \<in> existingStart ` set existingEntries"
    for newEntries existingEntries
  proof -
    have "newDate dp s = None" using that(1) by (simp add: newDate_def)
    with that(2) show ?thesis by (intro filterDuplicateEntries_throws) auto
  qed
  have c: "normalizeTimestamp dp s = Inr (isoString t)"
    if "dp s = Some t" and "\<bar>t\<bar> \<le> 8640000000000000" for t
    using that by (simp add: normalizeTimestamp_def newDate_def TimeClip_def toISOString_def)
  have d: "errName invalidTime = ''RangeError''"
    by (simp add: invalidTime_def)
  from a b c d show ?thesis by blast
qed

theorem normalizeTimestamp_unparsable_throws_witness:
  "isoParse ''yesterday at noon'' = None
   \<and> normalizeTimestamp isoParse ''yesterday at noon'' =
       Inl (ErrorObject ''RangeError'' ''Invalid time value'')
   \<and> filterDuplicateEntries isoParse testNewEntries [\<lparr>existingStart = ''yesterday at noon''\<rparr>] =
       Inl (ErrorObject ''RangeError'' ''Invalid time value'')
   \<and> isoParse ''2025-10-01T11:00:00+02:00'' = Some 1759309200000
   \<and> normalizeTimestamp isoParse ''2025-10-01T11:00:00+02:00'' =
       Inr (isoString 1759309200000)
   \<and> isoString 1759309200000 = ''2025-10-01T09:00:00.000Z''"
proof -
  have h: "isoParse ''yesterday at noon'' = None"
    by code_simp
  have m: "''yesterday at noon'' \<in> start ` set testNewEntries
      \<or> ''yesterday at noon'' \<in> existingStart ` set [\<lparr>existingStart = ''yesterday at noon''\<rparr>]"
    by simp
  have k: "isoParse ''2025-10-01T11:00:00+02:00'' = Some 1759309200000"
    by code_simp
  have r: "\<bar>1759309200000 :: int\<bar> \<le> 8640000000000000"
    by simp
  have i: "isoString 1759309200000 = ''2025-10-01T09:00:00.000Z''"
    by code_simp
  note rejected = normalizeTimestamp_unparsable_throws
    [of isoParse "''yesterday at noon''", THEN conjunct1, THEN mp, OF h]
  note thrown = rejected [THEN conjunct1]
  note reaches = rejected [THEN conjunct2, THEN spec, THEN spec, THEN mp, OF m]
  note accepted = normalizeTimestamp_unparsable_throws
    [of isoParse "''2025-10-01T11:00:00+02:00''", THEN conjunct2, THEN conjunct1,
     THEN spec, THEN mp, OF conjI [OF k r]]
  from h thrown reaches k accepted i show ?thesis
    unfolding invalidTime_def by (intro conjI)
qed

text \<open>
  February has no 30th day, so the string below is no timestamp of ISO 8601 (the strict
  parser rejects it); the engine accepts it all the same, and \<open>normalizeTimestamp\<close> returns
  the second of March instead of throwing.
\<close>

theorem normalizeTimestamp_accepts_invalid_date:
  "isoParse ''2025-02-30T00:00:00Z'' = None
   \<and> normalizeTimestamp v8Parse ''2025-02-30T00:00:00Z'' = Inr ''2025-03-02T00:00:00.000Z''"
  by code_simp

section \<open>Properties of the normalisation\<close>

subsection \<open>The parser reads what \<open>render\<close> writes\<close>

lemma digitVal_digitChar: "0 \<le> k \<Longrightarrow> k < 10 \<Longrightarrow> digitVal (digitChar k) = Some k"
  by (simp add: digitVal_def digitChar_def Let_def)

lemma digitVal_digitChar_mod [simp]: "digitVal (digitChar (k mod 10)) = Some (k mod 10)"
  by (rule digitVal_digitChar) simp_all

lemma decimal2: "(k::int) mod 100 = 10 * (k div 10 mod 10) + k mod 10"
proof -
  have "k mod 100 = k mod (10 * 10)" by simp
  also have "\<dots> = 10 * (k div 10 mod 10) + k mod 10" by (rule zmod_zmult2_eq) simp
  finally show ?thesis .
qed

lemma decimal3: "(k::int) mod 1000 = 100 * (k div 100 mod 10) + (10 * (k div 10 mod 10) + k mod 10)"
proof -
  have "k mod 1000 = k mod (100 * 10)" by simp
  also have "\<dots> = 100 * (k div 100 mod 10) + k mod 100" by (rule zmod_zmult2_eq) simp
  finally show ?thesis by (simp only: decimal2)
qed

lemma decimal4:
  "(k::int) mod 10000 =
     1000 * (k div 1000 mod 10) + (100 * (k div 100 mod 10) + (10 * (k div 10 mod 10) + k mod 10))"
proof -
  have "k mod 10000 = k mod (1000 * 10)" by simp
  also have "\<dots> = 1000 * (k div 1000 mod 10) + k mod 1000" by (rule zmod_zmult2_eq) simp
  finally show ?thesis by (simp only: decimal3)
qed

lemma horner2: "10 * (10 * 0 + a) + b = 10 * a + (b::int)"
  by simp

lemma horner3: "10 * (10 * (10 * 0 + a) + b) + c = 100 * a + (10 * b + (c::int))"
  by simp

lemma horner4:
  "10 * (10 * (10 * (10 * 0 + a) + b) + c) + d = 1000 * a + (100 * b + (10 * c + (d::int)))"
  by simp

lemma digits2_pad2:
  assumes "0 \<le> k" "k < 100"
  shows "digits2 (pad2 k @ r) = Some (k, r)"
proof -
  have "k mod 100 = k" using assms by simp
  then have "10 * (k div 10 mod 10) + k mod 10 = k" by (simp only: decimal2 [symmetric])
  then show ?thesis
    by (simp only: digits2_def pad2_def readDigits.simps append_Cons append_Nil
        digitVal_digitChar_mod option.case horner2)
qed

lemma digits3_pad3:
  assumes "0 \<le> k" "k < 1000"
  shows "digits3 (pad3 k @ r) = Some (k, r)"
proof -
  have "k mod 1000 = k" using assms by simp
  then have "100 * (k div 100 mod 10) + (10 * (k div 10 mod 10) + k mod 10) = k"
    by (simp only: decimal3 [symmetric])
  then show ?thesis
    by (simp only: digits3_def pad3_def pad2_def readDigits.simps append_Cons append_Nil
        digitVal_digitChar_mod option.case horner3)
qed

lemma digits4_pad4:
  assumes "0 \<le> k" "k < 10000"
  shows "digits4 (pad4 k @ r) = Some (k, r)"
proof -
  have "k mod 10000 = k" using assms by simp
  then have "1000 * (k div 1000 mod 10) +
      (100 * (k div 100 mod 10) + (10 * (k div 10 mod 10) + k mod 10)) = k"
    by (simp only: decimal4 [symmetric])
  then show ?thesis
    by (simp only: digits4_def pad4_def pad3_def pad2_def readDigits.simps append_Cons
        append_Nil digitVal_digitChar_mod option.case horner4)
qed

lemma readHHmm_render:
  "0 \<le> hh \<Longrightarrow> hh \<le> 23 \<Longrightarrow> 0 \<le> mm \<Longrightarrow> mm \<le> 59 \<Longrightarrow>
   readHHmm (pad2 hh @ CHR '':'' # pad2 mm) = Some (hh * 60 + mm)"
  using digits2_pad2 [of mm "[]"]
  by (simp add: readHHmm_def digits2_pad2)

lemma readOffset_renderZone:
  "validZone z \<Longrightarrow> readOffset (renderZone z) = Some (offsetMinutes z)"
  by (cases z) (simp_all add: readHHmm_render)

lemma readFraction_render:
  "(case f of None \<Rightarrow> True | Some ms \<Rightarrow> 0 \<le> ms \<and> ms \<le> 999) \<Longrightarrow>
   readFraction (renderFraction f @ renderZone z) =
     Some (case f of None \<Rightarrow> 0 | Some ms \<Rightarrow> ms, renderZone z)"
  by (cases f; cases z) (simp_all add: digits3_pad3)

lemma daysInMonth_le_31: "daysInMonth y m \<le> 31"
  by (simp add: daysInMonth_def)

text \<open>The engine accepts every string of the format, with the same time value.\<close>

lemma v8Parse_conforms: "isoParse s = Some i \<Longrightarrow> v8Parse s = Some i"
  using daysInMonth_le_31
  by (auto simp: isoParse_def v8Parse_def split: option.splits if_splits intro: order_trans)

lemma isoParse_render:
  assumes "validStamp t"
  shows "isoParse (render t) = Some (instant t)"
proof -
  have "day t \<le> daysInMonth (year t) (month t)" using assms by (simp add: validStamp_def)
  then have "day t \<le> 31" using daysInMonth_le_31 [of "year t" "month t"] by simp
  with assms show ?thesis
    by (simp add: validStamp_def isoParse_def render_def instant_def digits4_pad4 digits2_pad2
        readFraction_render readOffset_renderZone)
qed

lemma days_bound_core:
  fixes era yoe q4 q100 q5 d :: int
  assumes "-1 \<le> era" "era \<le> 24" "0 \<le> yoe" "yoe \<le> 399" "0 \<le> q4" "q4 \<le> 99"
    "0 \<le> q100" "q100 \<le> 3" "0 \<le> q5" "q5 \<le> 337" "1 \<le> d" "d \<le> 31"
  shows "\<bar>era * 146097 + (yoe * 365 + q4 - q100 + (q5 + d - 1)) - 719468\<bar> \<le> 3000000"
  using assms by linarith

lemma year_parts:
  fixes y' :: int
  assumes "-1 \<le> y'" "y' \<le> 9999"
  shows "-1 \<le> y' div 400" "y' div 400 \<le> 24"
    "0 \<le> y' - y' div 400 * 400" "y' - y' div 400 * 400 \<le> 399"
    "0 \<le> (y' - y' div 400 * 400) div 4" "(y' - y' div 400 * 400) div 4 \<le> 99"
    "0 \<le> (y' - y' div 400 * 400) div 100" "(y' - y' div 400 * 400) div 100 \<le> 3"
proof -
  have "(-1) div 400 \<le> y' div 400" using assms(1) by (rule zdiv_mono1) simp
  then show "-1 \<le> y' div 400" by simp
  have "y' div 400 \<le> 9999 div 400" using assms(2) by (rule zdiv_mono1) simp
  then show "y' div 400 \<le> 24" by simp
  have m: "y' - y' div 400 * 400 = y' mod 400" by (simp add: minus_div_mult_eq_mod)
  have lo: "0 \<le> y' mod 400" by simp
  have "y' mod 400 < 400" by simp
  then have hi: "y' mod 400 \<le> 399" by simp
  show "0 \<le> y' - y' div 400 * 400" "y' - y' div 400 * 400 \<le> 399"
    unfolding m using lo hi by simp_all
  have "0 div 4 \<le> (y' mod 400) div 4" using lo by (rule zdiv_mono1) simp
  then show "0 \<le> (y' - y' div 400 * 400) div 4" unfolding m by simp
  have "(y' mod 400) div 4 \<le> 399 div 4" using hi by (rule zdiv_mono1) simp
  then show "(y' - y' div 400 * 400) div 4 \<le> 99" unfolding m by simp
  have "0 div 100 \<le> (y' mod 400) div 100" using lo by (rule zdiv_mono1) simp
  then show "0 \<le> (y' - y' div 400 * 400) div 100" unfolding m by simp
  have "(y' mod 400) div 100 \<le> 399 div 100" using hi by (rule zdiv_mono1) simp
  then show "(y' - y' div 400 * 400) div 100 \<le> 3" unfolding m by simp
qed

lemma month_part:
  fixes mp :: int
  assumes "0 \<le> mp" "mp \<le> 11"
  shows "0 \<le> (153 * mp + 2) div 5" "(153 * mp + 2) div 5 \<le> 337"
proof -
  have "0 div 5 \<le> (153 * mp + 2) div 5" by (rule zdiv_mono1) (use assms in simp_all)
  then show "0 \<le> (153 * mp + 2) div 5" by simp
  have "(153 * mp + 2) div 5 \<le> 1685 div 5" by (rule zdiv_mono1) (use assms in simp_all)
  then show "(153 * mp + 2) div 5 \<le> 337" by simp
qed

lemma daysFromCivil_bound:
  assumes "0 \<le> y" "y \<le> 9999" "1 \<le> m" "m \<le> 12" "1 \<le> d" "d \<le> 31"
  shows "\<bar>daysFromCivil y m d\<bar> \<le> 3000000"
proof (cases "m \<le> 2")
  case True
  then have c: "(m \<le> 2) = True" "(2 < m) = False" by simp_all
  have y': "-1 \<le> y - 1" "y - 1 \<le> 9999" using assms by simp_all
  have mp: "0 \<le> m + 9" "m + 9 \<le> 11" using assms True by simp_all
  show ?thesis
    unfolding daysFromCivil_def Let_def c if_True if_False
    by (rule days_bound_core) (fact year_parts [OF y'] month_part [OF mp] assms)+
next
  case False
  then have c: "(m \<le> 2) = False" "(2 < m) = True" by simp_all
  have y': "-1 \<le> y" "y \<le> 9999" using assms by simp_all
  have mp: "0 \<le> m - 3" "m - 3 \<le> 11" using assms False by simp_all
  show ?thesis
    unfolding daysFromCivil_def Let_def c if_True if_False
    by (rule days_bound_core) (fact year_parts [OF y'] month_part [OF mp] assms)+
qed


lemma offsetMinutes_bound: "validZone z \<Longrightarrow> \<bar>offsetMinutes z\<bar> \<le> 1439"
  by (cases z) auto

lemma makeTime_bound_core:
  fixes D h mi s ms off :: int
  assumes "\<bar>D\<bar> \<le> 3000000" "0 \<le> h" "h \<le> 23" "0 \<le> mi" "mi \<le> 59" "0 \<le> s" "s \<le> 59"
    "0 \<le> ms" "ms \<le> 999" "\<bar>off\<bar> \<le> 1439"
  shows "\<bar>D * 86400000 + h * 3600000 + mi * 60000 + s * 1000 + ms - off * 60000\<bar>
     \<le> 8640000000000000"
  using assms by linarith

lemma instant_bound:
  assumes "validStamp t"
  shows "\<bar>instant t\<bar> \<le> 8640000000000000"
proof -
  have "day t \<le> daysInMonth (year t) (month t)" using assms by (simp add: validStamp_def)
  then have d31: "day t \<le> 31" using daysInMonth_le_31 [of "year t" "month t"] by simp
  have d: "\<bar>daysFromCivil (year t) (month t) (day t)\<bar> \<le> 3000000"
    using assms d31 by (intro daysFromCivil_bound) (simp_all add: validStamp_def)
  have o: "\<bar>offsetMinutes (zone t)\<bar> \<le> 1439"
    using assms by (intro offsetMinutes_bound) (simp add: validStamp_def)
  have ms: "0 \<le> (case millis t of None \<Rightarrow> 0 | Some ms \<Rightarrow> ms)"
    "(case millis t of None \<Rightarrow> 0 | Some ms \<Rightarrow> ms) \<le> 999"
    using assms by (auto simp: validStamp_def split: option.splits)
  show ?thesis
    unfolding instant_def makeTime_def msPerDay_def
    by (rule makeTime_bound_core) (use assms d o ms in \<open>simp_all add: validStamp_def\<close>)
qed

lemma normalizeTimestamp_render:
  assumes conform: "\<forall>s i. isoParse s = Some i \<longrightarrow> dp s = Some i"
    and valid: "validStamp t"
  shows "normalizeTimestamp dp (render t) = Inr (isoString (instant t))"
proof -
  have "dp (render t) = Some (instant t)"
    using conform isoParse_render [OF valid] by blast
  moreover have "TimeClip (instant t) = Some (instant t)"
    using instant_bound [OF valid] by (simp add: TimeClip_def)
  ultimately show ?thesis
    by (simp add: normalizeTimestamp_def newDate_def toISOString_def)
qed

text \<open>
  Claim C2.  For a host whose \<open>Date.parse\<close> agrees with the date-time string format, two
  valid timestamps that denote the same instant, in whatever offset notations (\<open>Z\<close>,
  \<open>+00:00\<close> or any other offset), are normalised to the same string.
\<close>

theorem normalizeTimestamp_same_instant:
  assumes conform: "\<forall>s i. isoParse s = Some i \<longrightarrow> dp s = Some i"
    and valid: "validStamp a" "validStamp b"
    and same: "instant a = instant b"
  shows "\<exists>n. normalizeTimestamp dp (render a) = Inr n \<and> normalizeTimestamp dp (render b) = Inr n"
  using normalizeTimestamp_render [OF conform valid(1)]
    normalizeTimestamp_render [OF conform valid(2)] same
  by simp

theorem normalizeTimestamp_same_instant_witness:
  "validStamp nineUtc \<and> validStamp elevenPlusTwo \<and> instant nineUtc = instant elevenPlusTwo
   \<and> render nineUtc = ''2025-10-01T09:00:00Z''
   \<and> render elevenPlusTwo = ''2025-10-01T11:00:00+02:00''
   \<and> (\<exists>n. normalizeTimestamp isoParse ''2025-10-01T09:00:00Z'' = Inr n
          \<and> normalizeTimestamp isoParse ''2025-10-01T11:00:00+02:00'' = Inr n)"
proof -
  have c: "\<forall>s i. isoParse s = Some i \<longrightarrow> isoParse s = Some i" by simp
  have va: "validStamp nineUtc" by code_simp
  have vb: "validStamp elevenPlusTwo" by code_simp
  have i: "instant nineUtc = instant elevenPlusTwo" by code_simp
  have ra: "render nineUtc = ''2025-10-01T09:00:00Z''" by code_simp
  have rb: "render elevenPlusTwo = ''2025-10-01T11:00:00+02:00''" by code_simp
  from normalizeTimestamp_same_instant [OF c va vb i] va vb i ra rb
  show ?thesis by simp
qed

section \<open>Properties of the transformation\<close>

lemma dropWhile_rev_core:
  assumes "dropWhile P u = u"
  shows "dropWhile P (rev (dropWhile P (rev u))) = rev (dropWhile P (rev u))"
proof (cases "dropWhile P (rev u)")
  case Nil
  show ?thesis unfolding Nil by simp
next
  case (Cons x xs)
  have split: "u = rev (dropWhile P (rev u)) @ rev (takeWhile P (rev u))"
    by (metis rev_append rev_rev_ident takeWhile_dropWhile_id)
  from Cons have ne: "rev (dropWhile P (rev u)) \<noteq> []" by simp
  then have "u \<noteq> []" by auto
  with assms have "\<not> P (hd u)" by (metis hd_dropWhile)
  moreover have "hd u = hd (rev (dropWhile P (rev u)))"
    using split ne by (metis hd_append2)
  ultimately have "\<not> P (hd (rev (dropWhile P (rev u))))" by simp
  with ne show ?thesis by (cases "rev (dropWhile P (rev u))") simp_all
qed

lemma trim_trimmed: "trimmed (trim s)"
  unfolding trimmed_def trim_def
  by (simp add: dropWhile_rev_core dropWhile_idem)

lemma trim_frame:
  "s = takeWhile isWhiteSpace s @ trim s
       @ rev (takeWhile isWhiteSpace (rev (dropWhile isWhiteSpace s)))"
proof -
  let ?u = "dropWhile isWhiteSpace s"
  have "?u = rev (dropWhile isWhiteSpace (rev ?u)) @ rev (takeWhile isWhiteSpace (rev ?u))"
    by (metis rev_append rev_rev_ident takeWhile_dropWhile_id)
  then have "takeWhile isWhiteSpace s @ ?u =
      takeWhile isWhiteSpace s @ trim s @ rev (takeWhile isWhiteSpace (rev ?u))"
    by (simp add: trim_def)
  then show ?thesis by simp
qed

lemma trim_only_white:
  "\<exists>pre post. list_all isWhiteSpace pre \<and> list_all isWhiteSpace post \<and> s = pre @ trim s @ post"
proof -
  have "list_all isWhiteSpace (takeWhile isWhiteSpace s)"
    by (simp add: list_all_iff) (meson set_takeWhileD)
  moreover have "list_all isWhiteSpace
      (rev (takeWhile isWhiteSpace (rev (dropWhile isWhiteSpace s))))"
    by (simp add: list_all_iff) (meson set_takeWhileD)
  ultimately show ?thesis using trim_frame [of s] by blast
qed

lemma composeDescription_spec:
  "composeDescription worklog =
     specDescription (existing (issueKey worklog)) (existing (issueSelf worklog))
       (worklogDescription worklog)"
  by (cases "issueKey worklog"; cases "issueSelf worklog"; cases "worklogDescription worklog")
     (simp_all add: composeDescription_def specDescription_def existing_def)

lemma description_transform:
  "description (transformTempoWorklogToToggl worklog config) = trim (composeDescription worklog)"
  by (simp add: transformTempoWorklogToToggl_def Let_def split: option.splits)

text \<open>
  Claim C3.  The description of the transformed payload is the description that the
  specification words, trimmed: it has no white space at either end, and it differs from
  the composed description by white space at the two ends only.
\<close>

theorem transform_description:
  "description (transformTempoWorklogToToggl worklog config) =
     trim (specDescription (existing (issueKey worklog)) (existing (issueSelf worklog))
            (worklogDescription worklog))
   \<and> trimmed (description (transformTempoWorklogToToggl worklog config))
   \<and> (\<exists>pre post. list_all isWhiteSpace pre \<and> list_all isWhiteSpace post
        \<and> specDescription (existing (issueKey worklog)) (existing (issueSelf worklog))
             (worklogDescription worklog)
           = pre @ description (transformTempoWorklogToToggl worklog config) @ post)"
  unfolding description_transform composeDescription_spec
  using trim_trimmed trim_only_white by blast

theorem transform_description_witness:
  "description (transformTempoWorklogToToggl
      (testWorklog (Some resolvedIssue) (Some ''fix bug'')) testConfig) = ''WEB-1: fix bug''
   \<and> description (transformTempoWorklogToToggl
      (testWorklog (Some unresolvedIssue) (Some ''call'')) testConfig) = ''https://x/issue/9 | call''
   \<and> description (transformTempoWorklogToToggl
      (testWorklog None None) testConfig) = []"
proof -
  have a: "trim (specDescription
      (existing (issueKey (testWorklog (Some resolvedIssue) (Some ''fix bug''))))
      (existing (issueSelf (testWorklog (Some resolvedIssue) (Some ''fix bug''))))
      (worklogDescription (testWorklog (Some resolvedIssue) (Some ''fix bug'')))) =
      ''WEB-1: fix bug''"
    by code_simp
  have b: "trim (specDescription
      (existing (issueKey (testWorklog (Some unresolvedIssue) (Some ''call''))))
      (existing (issueSelf (testWorklog (Some unresolvedIssue) (Some ''call''))))
      (worklogDescription (testWorklog (Some unresolvedIssue) (Some ''call'')))) =
      ''https://x/issue/9 | call''"
    by code_simp
  have c: "trim (specDescription
      (existing (issueKey (testWorklog None None)))
      (existing (issueSelf (testWorklog None None)))
      (worklogDescription (testWorklog None None))) = []"
    by code_simp
  from transform_description [of "testWorklog (Some resolvedIssue) (Some ''fix bug'')" testConfig]
    transform_description [of "testWorklog (Some unresolvedIssue) (Some ''call'')" testConfig]
    transform_description [of "testWorklog None None" testConfig]
  show ?thesis unfolding a b c by blast
qed

text \<open>
  The earlier revision in \<open>src/lib/transform.ts\<close> composes the same description for every
  worklog without a resolved key, and treats the project in the same way.
\<close>

lemma transform_rev1_description:
  "\<not> truthy (issueKey worklog) \<Longrightarrow>
   description (transformTempoWorklogToToggl_rev1 worklog config) =
   description (transformTempoWorklogToToggl worklog config)"
  by (simp add: transformTempoWorklogToToggl_rev1_def transformTempoWorklogToToggl_def Let_def
      composeDescription_def composeDescription_rev1_def split: option.splits)

lemma transform_rev1_project:
  "project_id (transformTempoWorklogToToggl_rev1 worklog config) =
   project_id (transformTempoWorklogToToggl worklog config)
   \<and> task_id (transformTempoWorklogToToggl_rev1 worklog config) = Absent"
  by (simp add: transformTempoWorklogToToggl_rev1_def transformTempoWorklogToToggl_def Let_def
      split: option.splits)

subsection \<open>Optional fields\<close>

lemma transform_project_id:
  "project_id (transformTempoWorklogToToggl worklog config) =
     (case cfg_project_id config of
        None \<Rightarrow> Absent
      | Some v \<Rightarrow> if truthyNumber v then Defined v else Absent)"
  by (simp add: transformTempoWorklogToToggl_def Let_def split: option.splits)

lemma transform_task_id:
  "task_id (transformTempoWorklogToToggl worklog config) =
     (case cfg_task_id config of None \<Rightarrow> Undefined | Some v \<Rightarrow> Defined v)"
  by (simp add: transformTempoWorklogToToggl_def Let_def split: option.splits)

lemma transform_stop_tags:
  "stop (transformTempoWorklogToToggl worklog config) = Absent
   \<and> tags (transformTempoWorklogToToggl worklog config) = Absent"
  by (simp add: transformTempoWorklogToToggl_def Let_def split: option.splits)

lemma map_of_jsonMember:
  "map_of (jsonMember k f x) k' = (if k' = k then map_option f (readSlot x) else None)"
  by (cases x) simp_all

lemma jsonBody_project_id:
  "map_of (jsonBody p) ''project_id'' = map_option jsonNumber (readSlot (project_id p))"
  by (simp add: jsonBody_def map_of_jsonMember map_add_def split: option.splits)

lemma jsonBody_task_id:
  "map_of (jsonBody p) ''task_id'' = map_option jsonNumber (readSlot (task_id p))"
  by (simp add: jsonBody_def map_of_jsonMember map_add_def split: option.splits)

text \<open>
  Claim C6.  The two fields are not treated alike.  \<open>project_id\<close> is set under
  \<open>if (config.project_id)\<close>: it is a property of the payload exactly when the configuration
  gives a truthy number (not zero, not \<open>NaN\<close>), and then holds that number.  \<open>task_id\<close> is
  copied by the object literal, so it is a property of every payload: it holds the
  configured number, or \<open>undefined\<close> when the configuration omits it.  Hence either field
  reads as a number only if the configuration gives that number, and a field that the
  configuration omits reads as \<open>undefined\<close> (never as \<open>null\<close> or zero) and has no member in the
  request body; the member of a configured field is its number, and that of a configured
  \<open>task_id\<close> that is \<open>NaN\<close> is \<open>null\<close>.
\<close>

theorem transform_optional_fields:
  "project_id (transformTempoWorklogToToggl worklog config) =
     (case cfg_project_id config of
        None \<Rightarrow> Absent
      | Some v \<Rightarrow> if truthyNumber v then Defined v else Absent)
   \<and> task_id (transformTempoWorklogToToggl worklog config) =
     (case cfg_task_id config of None \<Rightarrow> Undefined | Some v \<Rightarrow> Defined v)
   \<and> (\<forall>v. readSlot (project_id (transformTempoWorklogToToggl worklog config)) = Some v
          \<longrightarrow> cfg_project_id config = Some v)
   \<and> (\<forall>v. readSlot (task_id (transformTempoWorklogToToggl worklog config)) = Some v
          \<longrightarrow> cfg_task_id config = Some v)
   \<and> (cfg_project_id config = None \<longrightarrow>
        \<not> isProperty (project_id (transformTempoWorklogToToggl worklog config))
        \<and> map_of (jsonBody (transformTempoWorklogToToggl worklog config)) ''project_id'' = None)
   \<and> isProperty (task_id (transformTempoWorklogToToggl worklog config))
   \<and> (cfg_task_id config = None \<longrightarrow>
        task_id (transformTempoWorklogToToggl worklog config) = Undefined
        \<and> readSlot (task_id (transformTempoWorklogToToggl worklog config)) = None
        \<and> map_of (jsonBody (transformTempoWorklogToToggl worklog config)) ''task_id'' = None)
   \<and> map_of (jsonBody (transformTempoWorklogToToggl worklog config)) ''project_id'' =
       (case cfg_project_id config of
          None \<Rightarrow> None
        | Some v \<Rightarrow> if truthyNumber v then Some (jsonNumber v) else None)
   \<and> map_of (jsonBody (transformTempoWorklogToToggl worklog config)) ''task_id'' =
       map_option jsonNumber (cfg_task_id config)"
proof -
  let ?p = "transformTempoWorklogToToggl worklog config"
  have 1: "\<forall>v. readSlot (project_id ?p) = Some v \<longrightarrow> cfg_project_id config = Some v"
    unfolding transform_project_id by (auto split: option.splits if_splits)
  have 2: "\<forall>v. readSlot (task_id ?p) = Some v \<longrightarrow> cfg_task_id config = Some v"
    unfolding transform_task_id by (auto split: option.splits)
  have 3: "cfg_project_id config = None \<longrightarrow>
      \<not> isProperty (project_id ?p) \<and> map_of (jsonBody ?p) ''project_id'' = None"
    by (simp add: jsonBody_project_id transform_project_id)
  have 4: "isProperty (task_id ?p)"
    by (simp add: transform_task_id split: option.splits)
  have 5: "cfg_task_id config = None \<longrightarrow>
      task_id ?p = Undefined \<and> readSlot (task_id ?p) = None
      \<and> map_of (jsonBody ?p) ''task_id'' = None"
    by (simp add: jsonBody_task_id transform_task_id)
  have 6: "map_of (jsonBody ?p) ''project_id'' =
      (case cfg_project_id config of
         None \<Rightarrow> None
       | Some v \<Rightarrow> if truthyNumber v then Some (jsonNumber v) else None)"
    by (simp add: jsonBody_project_id transform_project_id split: option.splits)
  have 7: "map_of (jsonBody ?p) ''task_id'' = map_option jsonNumber (cfg_task_id config)"
    by (simp add: jsonBody_task_id transform_task_id split: option.splits)
  show ?thesis
    by (intro conjI) (fact transform_project_id transform_task_id 1 2 3 4 5 6 7)+
qed

theorem transform_optional_fields_witness:
  "cfg_project_id bareConfig = None \<and> cfg_task_id bareConfig = None
   \<and> \<not> isProperty (project_id (transformTempoWorklogToToggl (testWorklog None None) bareConfig))
   \<and> map_of (jsonBody (transformTempoWorklogToToggl (testWorklog None None) bareConfig))
        ''project_id'' = None
   \<and> task_id (transformTempoWorklogToToggl (testWorklog None None) bareConfig) = Undefined
   \<and> readSlot (task_id (transformTempoWorklogToToggl (testWorklog None None) bareConfig)) = None
   \<and> map_of (jsonBody (transformTempoWorklogToToggl (testWorklog None None) bareConfig))
        ''task_id'' = None
   \<and> project_id (transformTempoWorklogToToggl (testWorklog None None) testConfig) =
        Defined (Num 67890)
   \<and> task_id (transformTempoWorklogToToggl (testWorklog None None) testConfig) =
        Defined (Num 42)"
proof -
  have b1: "cfg_project_id bareConfig = None" by (simp add: bareConfig_def)
  have b2: "cfg_task_id bareConfig = None" by (simp add: bareConfig_def)
  note bare = transform_optional_fields [of "testWorklog None None" bareConfig]
  note tail = bare [THEN conjunct2, THEN conjunct2, THEN conjunct2, THEN conjunct2]
  note p = tail [THEN conjunct1, THEN mp, OF b1]
  note t = tail [THEN conjunct2, THEN conjunct2, THEN conjunct1, THEN mp, OF b2]
  note test = transform_optional_fields [of "testWorklog None None" testConfig]
  have tp: "project_id (transformTempoWorklogToToggl (testWorklog None None) testConfig) =
      Defined (Num 67890)"
    using test [THEN conjunct1] by (simp add: testConfig_def)
  have tt: "task_id (transformTempoWorklogToToggl (testWorklog None None) testConfig) =
      Defined (Num 42)"
    using test [THEN conjunct2, THEN conjunct1] by (simp add: testConfig_def)
  show ?thesis
    by (intro conjI b1 b2 p [THEN conjunct1] p [THEN conjunct2]
        t [THEN conjunct1] t [THEN conjunct2, THEN conjunct1]
        t [THEN conjunct2, THEN conjunct2] tp tt)
qed

text \<open>
  With a configuration that gives no task identifier the payload still has the property
  \<open>task_id\<close>: it holds \<open>undefined\<close>, where \<open>project_id\<close> is no property at all.
\<close>

theorem transform_task_id_not_omitted:
  "cfg_task_id bareConfig = None
   \<and> isProperty (task_id (transformTempoWorklogToToggl (testWorklog None None) bareConfig))
   \<and> task_id (transformTempoWorklogToToggl (testWorklog None None) bareConfig) = Undefined
   \<and> project_id (transformTempoWorklogToToggl (testWorklog None None) bareConfig) = Absent"
  by (simp add: transformTempoWorklogToToggl_def bareConfig_def Let_def)

section \<open>Properties of the enrichment\<close>

lemma setAdd_distinct: "distinct xs \<Longrightarrow> distinct (setAdd x xs)"
  by (simp add: setAdd_def)

lemma setAdd_set: "set (setAdd x xs) = insert x (set xs)"
  by (auto simp: setAdd_def)

lemma collectIssueUrls_distinct:
  "distinct acc \<Longrightarrow> distinct (collectIssueUrls worklogs acc)"
  by (induction worklogs arbitrary: acc) (simp_all add: setAdd_distinct)

lemma truthy_Some: "truthy x \<longleftrightarrow> (\<exists>s. x = Some s \<and> s \<noteq> [])"
  by (cases x) simp_all

lemma collectIssueUrls_set:
  "set (collectIssueUrls worklogs acc) = set acc \<union> referencedUrls worklogs"
proof (induction worklogs arbitrary: acc)
  case Nil
  then show ?case by (simp add: referencedUrls_def)
next
  case (Cons w ws)
  have r: "referencedUrls (w # ws) =
      (if truthy (issueSelf w) then insert (orEmpty (issueSelf w)) (referencedUrls ws)
       else referencedUrls ws)"
    by (cases "issueSelf w") (auto simp: referencedUrls_def)
  show ?case by (simp add: Cons.IH r setAdd_set)
qed

lemma fetchIssues_step:
  "fetchIssues f (url # urls) m w =
     (case f url w of (r, w') \<Rightarrow> fetchIssues f urls (m(url \<mapsto> resolve r)) w')"
  by (cases "f url w"; cases "fst (f url w)") (auto split: prod.splits sum.splits)

lemma logged_apply:
  "logged f a (w, log) = (case f a w of (r, w') \<Rightarrow> (r, (w', log @ [(a, r)])))"
  by (simp add: logged_def)

lemma fetchIssues_logged:
  assumes "fetchIssues (logged f) urls m (w, log) = (m', (w', log'))" "distinct urls"
  shows "fetchIssues f urls m w = (m', w')
     \<and> (\<exists>tr. log' = log @ tr \<and> map fst tr = urls
          \<and> (\<forall>url. m' url = (case map_of tr url of None \<Rightarrow> m url
                                | Some outcome \<Rightarrow> Some (resolve outcome))))"
  using assms
proof (induction urls arbitrary: m w log)
  case Nil
  then have "m' = m" "w' = w" "log' = log" by simp_all
  then show ?case by simp
next
  case (Cons url urls)
  obtain r w1 where f: "f url w = (r, w1)" by (cases "f url w")
  have run:
    "fetchIssues (logged f) urls (m(url \<mapsto> resolve r)) (w1, log @ [(url, r)]) = (m', (w', log'))"
    using Cons.prems(1) unfolding fetchIssues_step logged_apply f by simp
  from Cons.prems(2) have d: "distinct urls" and fresh: "url \<notin> set urls" by simp_all
  note ih = Cons.IH [OF run d]
  from ih have plain: "fetchIssues f urls (m(url \<mapsto> resolve r)) w1 = (m', w')" ..
  from ih obtain tr where
    log: "log' = (log @ [(url, r)]) @ tr"
    and urls: "map fst tr = urls"
    and m': "\<forall>u. m' u = (case map_of tr u of None \<Rightarrow> (m(url \<mapsto> resolve r)) u
                           | Some outcome \<Rightarrow> Some (resolve outcome))"
    by (elim conjE exE)
  have none: "map_of tr url = None"
    using fresh urls by (metis map_of_eq_None_iff set_map)
  have 1: "fetchIssues f (url # urls) m w = (m', w')"
    unfolding fetchIssues_step f using plain by simp
  have 2: "log' = log @ (url, r) # tr" using log by simp
  have 3: "map fst ((url, r) # tr) = url # urls" using urls by simp
  have 4: "\<forall>u. m' u = (case map_of ((url, r) # tr) u of None \<Rightarrow> m u
                               | Some outcome \<Rightarrow> Some (resolve outcome))"
    using m' none by (auto split: option.splits)
  show ?case
    by (intro conjI exI [where x = "(url, r) # tr"]) (fact 1 2 3 4)+
qed

lemma applyDetails_unreferenced:
  "\<not> truthy (issueSelf worklog) \<Longrightarrow> applyDetails m worklog = worklog"
  by (cases "issue worklog") (simp_all add: applyDetails_def issueSelf_def)

lemma applyDetails_referenced:
  "issue worklog = Some i \<Longrightarrow> self i \<noteq> [] \<Longrightarrow> m (self i) = Some details \<Longrightarrow>
   applyDetails m worklog = withDetails worklog i details"
  by (simp add: applyDetails_def withDetails_def)


lemma enrich_unfold:
  assumes "enrichWorklogsWithIssueDetails f worklogs w = (enriched, w')"
  obtains m where "fetchIssues f (collectIssueUrls worklogs []) Map.empty w = (m, w')"
    and "enriched = map (applyDetails m) worklogs"
  using assms unfolding enrichWorklogsWithIssueDetails_def Let_def
  by (auto split: prod.splits)

text \<open>
  Claim C9.  Run with a lookup that records its calls, the enrichment returns the same
  worklogs as without the recording, and its method on the client returns them and never
  throws.  The recorded URLs are distinct and are exactly the references of the batch, so
  each reference is looked up once.  The output has the length of the input; at each
  position a worklog without a reference is returned unchanged, and a worklog with a
  reference gets the key and summary of the recorded outcome of its lookup: the details
  returned, or empty strings when the lookup threw.
\<close>

theorem enrichment_best_effort:
  assumes run: "enrichWorklogsWithIssueDetails (logged fetchJiraIssue) worklogs (w, []) =
      (enriched, (w', log))"
  shows "enrichWorklogsWithIssueDetails fetchJiraIssue worklogs w = (enriched, w')
     \<and> enrichWorklogsWithIssueDetails_method (newTempoClient fetchWorklogs' fetchJiraIssue)
          worklogs w = (Inr enriched, w')
     \<and> distinct (map fst log)
     \<and> set (map fst log) = referencedUrls worklogs
     \<and> length enriched = length worklogs
     \<and> (\<forall>k < length worklogs.
          (\<not> truthy (issueSelf (worklogs ! k)) \<longrightarrow> enriched ! k = worklogs ! k)
        \<and> (\<forall>i. issue (worklogs ! k) = Some i \<and> self i \<noteq> [] \<longrightarrow>
             (\<exists>outcome. (self i, outcome) \<in> set log
                \<and> enriched ! k = withDetails (worklogs ! k) i (resolve outcome))))
     \<and> (\<forall>thrown. resolve (Inl thrown) = \<lparr>detailsKey = [], detailsSummary = []\<rparr>)"
proof -
  let ?urls = "collectIssueUrls worklogs []"
  from run obtain m where
    fetch: "fetchIssues (logged fetchJiraIssue) ?urls Map.empty (w, []) = (m, (w', log))"
    and enriched: "enriched = map (applyDetails m) worklogs"
    by (rule enrich_unfold)
  have d: "distinct ?urls" by (rule collectIssueUrls_distinct) simp
  note l = fetchIssues_logged [OF fetch d]
  from l have plain: "fetchIssues fetchJiraIssue ?urls Map.empty w = (m, w')" ..
  from l obtain tr where tr: "log = [] @ tr" and urls: "map fst tr = ?urls"
    and m: "\<forall>url. m url = (case map_of tr url of None \<Rightarrow> Map.empty url
                               | Some outcome \<Rightarrow> Some (resolve outcome))"
    by (elim conjE exE)
  from tr have log: "tr = log" by simp
  have 1: "enrichWorklogsWithIssueDetails fetchJiraIssue worklogs w = (enriched, w')"
    by (simp add: enrichWorklogsWithIssueDetails_def Let_def plain enriched)
  have 2: "enrichWorklogsWithIssueDetails_method (newTempoClient fetchWorklogs' fetchJiraIssue)
      worklogs w = (Inr enriched, w')"
    by (simp add: newTempoClient_def 1)
  have 3: "distinct (map fst log)" using d urls log by simp
  have 4: "set (map fst log) = referencedUrls worklogs"
    using urls log collectIssueUrls_set [of worklogs "[]"] by simp
  have 5: "length enriched = length worklogs" by (simp add: enriched)
  have 6: "enriched ! k = worklogs ! k"
    if "k < length worklogs" "\<not> truthy (issueSelf (worklogs ! k))" for k
    using that by (simp add: enriched applyDetails_unreferenced)
  have 7: "\<exists>outcome. (self i, outcome) \<in> set log
      \<and> enriched ! k = withDetails (worklogs ! k) i (resolve outcome)"
    if k: "k < length worklogs" and i: "issue (worklogs ! k) = Some i" "self i \<noteq> []" for k i
  proof -
    have "issueSelf (worklogs ! k) = Some (self i)" using i by (simp add: issueSelf_def)
    with k i have "self i \<in> referencedUrls worklogs"
      unfolding referencedUrls_def by (metis (mono_tags, lifting) mem_Collect_eq nth_mem)
    with 4 have "self i \<in> fst ` set log" by simp
    then obtain outcome where o: "map_of log (self i) = Some outcome"
      by (metis map_of_eq_None_iff not_None_eq)
    then have "(self i, outcome) \<in> set log" by (rule map_of_SomeD)
    moreover have "m (self i) = Some (resolve outcome)" using m o log by simp
    then have "enriched ! k = withDetails (worklogs ! k) i (resolve outcome)"
      using k i by (simp add: enriched applyDetails_referenced)
    ultimately show ?thesis by blast
  qed
  show ?thesis
    by (intro conjI allI impI) (use 1 2 3 4 5 6 7 in \<open>simp_all\<close>)
qed

lemma enrich_example: "enrichWorklogsWithIssueDetails (logged testLookup) testWorklogs ([], []) =
   ([testWorklog (Some resolvedIssue) (Some ''fix bug''),
     testWorklog None (Some ''standup''),
     testWorklog (Some (brokenIssue\<lparr>key := Some [], summary := Some []\<rparr>)) (Some ''call''),
     testWorklog (Some resolvedIssue) (Some ''review'')],
    ([''fetchJiraIssue'', ''fetchJiraIssue''],
     [(''https://x/issue/9'', Inr \<lparr>detailsKey = ''WEB-1'', detailsSummary = ''Checkout page''\<rparr>),
         (''https://x/issue/7'', Inl notFound)]))"
  by code_simp

theorem enrichment_best_effort_witness:
  "enrichWorklogsWithIssueDetails testLookup testWorklogs [] =
     ([testWorklog (Some resolvedIssue) (Some ''fix bug''),
       testWorklog None (Some ''standup''),
       testWorklog (Some (brokenIssue\<lparr>key := Some [], summary := Some []\<rparr>)) (Some ''call''),
       testWorklog (Some resolvedIssue) (Some ''review'')],
      [''fetchJiraIssue'', ''fetchJiraIssue''])
   \<and> distinct (map fst
        [(''https://x/issue/9'',
          Inr \<lparr>detailsKey = ''WEB-1'', detailsSummary = ''Checkout page''\<rparr>),
         (''https://x/issue/7'', Inl notFound)])"
proof -
  note e = enrichment_best_effort [OF enrich_example]
  note a = e [THEN conjunct1]
  note b = e [THEN conjunct2, THEN conjunct2, THEN conjunct1]
  from a b show ?thesis by (rule conjI)
qed

section \<open>Properties of the creation and of the sync service\<close>

lemma created_failed_length: "length (createdOf tr) + length (failedOf tr) = length tr"
  by (induction tr rule: createdOf.induct) simp_all

lemma createLoop_logged:
  assumes "createLoop (logged c) es res (w, log) = (res', (w', log'))"
  shows "createLoop c es res w = (res', w')
     \<and> (\<exists>tr. log' = log @ tr \<and> map fst tr = es
          \<and> res' = res\<lparr>success := success res @ createdOf tr,
                         failed := failed res @ failedOf tr,
                         successCount := successCount res + length (createdOf tr),
                         failedCount := failedCount res + length (failedOf tr)\<rparr>)"
  using assms
proof (induction es arbitrary: res w log)
  case Nil
  then have "res' = res" "w' = w" "log' = log" by simp_all
  then show ?case by simp
next
  case (Cons e es)
  obtain r w1 where c: "c e w = (r, w1)" by (cases "c e w")
  show ?case
  proof (cases r)
    case (Inl thrown)
    let ?res1 = "res\<lparr>failed := failed res @ [\<lparr>entry = e, error = messageOrString thrown\<rparr>],
                      failedCount := failedCount res + 1\<rparr>"
    have run: "createLoop (logged c) es ?res1 (w1, log @ [(e, r)]) = (res', (w', log'))"
      using Cons.prems by (simp add: logged_apply c Inl)
    note ih = Cons.IH [OF run]
    from ih have plain: "createLoop c es ?res1 w1 = (res', w')" ..
    from ih obtain tr where log: "log' = (log @ [(e, r)]) @ tr" and es: "map fst tr = es"
      and res': "res' = ?res1\<lparr>success := success ?res1 @ createdOf tr,
                         failed := failed ?res1 @ failedOf tr,
                         successCount := successCount ?res1 + length (createdOf tr),
                         failedCount := failedCount ?res1 + length (failedOf tr)\<rparr>"
      by (elim conjE exE)
    have 1: "createLoop c (e # es) res w = (res', w')" using plain by (simp add: c Inl)
    have 2: "log' = log @ (e, r) # tr" using log by simp
    have 3: "map fst ((e, r) # tr) = e # es" using es by simp
    have 4: "res' = res\<lparr>success := success res @ createdOf ((e, r) # tr),
                         failed := failed res @ failedOf ((e, r) # tr),
                         successCount := successCount res + length (createdOf ((e, r) # tr)),
                         failedCount := failedCount res + length (failedOf ((e, r) # tr))\<rparr>"
      unfolding res' Inl by simp
    show ?thesis by (intro conjI exI [where x = "(e, r) # tr"]) (fact 1 2 3 4)+
  next
    case (Inr created)
    let ?res1 = "res\<lparr>success := success res @ [created],
                      successCount := successCount res + 1\<rparr>"
    have run: "createLoop (logged c) es ?res1 (w1, log @ [(e, r)]) = (res', (w', log'))"
      using Cons.prems by (simp add: logged_apply c Inr)
    note ih = Cons.IH [OF run]
    from ih have plain: "createLoop c es ?res1 w1 = (res', w')" ..
    from ih obtain tr where log: "log' = (log @ [(e, r)]) @ tr" and es: "map fst tr = es"
      and res': "res' = ?res1\<lparr>success := success ?res1 @ createdOf tr,
                         failed := failed ?res1 @ failedOf tr,
                         successCount := successCount ?res1 + length (createdOf tr),
                         failedCount := failedCount ?res1 + length (failedOf tr)\<rparr>"
      by (elim conjE exE)
    have 1: "createLoop c (e # es) res w = (res', w')" using plain by (simp add: c Inr)
    have 2: "log' = log @ (e, r) # tr" using log by simp
    have 3: "map fst ((e, r) # tr) = e # es" using es by simp
    have 4: "res' = res\<lparr>success := success res @ createdOf ((e, r) # tr),
                         failed := failed res @ failedOf ((e, r) # tr),
                         successCount := successCount res + length (createdOf ((e, r) # tr)),
                         failedCount := failedCount res + length (failedOf ((e, r) # tr))\<rparr>"
      unfolding res' Inr by simp
    show ?thesis by (intro conjI exI [where x = "(e, r) # tr"]) (fact 1 2 3 4)+
  qed
qed

lemma createTimeEntries_logged:
  assumes "createTimeEntries (logged c) es (w, []) = (result, (w', log))"
  shows "createTimeEntries c es w = (result, w')
     \<and> map fst log = es
     \<and> result = \<lparr>success = createdOf log, failed = failedOf log,
                  successCount = length (createdOf log), failedCount = length (failedOf log)\<rparr>"
proof -
  note l = createLoop_logged [OF assms [unfolded createTimeEntries_def]]
  from l have plain: "createLoop c es
      \<lparr>success = [], failed = [], successCount = 0, failedCount = 0\<rparr> w = (result, w')" ..
  from l obtain tr where log: "log = [] @ tr" and es: "map fst tr = es"
    and res: "result = \<lparr>success = [], failed = [], successCount = 0, failedCount = 0\<rparr>
        \<lparr>success := success \<lparr>success = [], failed = [], successCount = 0, failedCount = 0\<rparr>
             @ createdOf tr,
         failed := failed \<lparr>success = [], failed = [], successCount = 0, failedCount = 0\<rparr>
             @ failedOf tr,
         successCount := successCount
             \<lparr>success = [], failed = [], successCount = 0, failedCount = 0\<rparr>
             + length (createdOf tr),
         failedCount := failedCount
             \<lparr>success = [], failed = [], successCount = 0, failedCount = 0\<rparr>
             + length (failedOf tr)\<rparr>"
    by (elim conjE exE)
  from log have tr: "tr = log" by simp
  show ?thesis
    unfolding createTimeEntries_def using plain es res tr by simp
qed

subsection \<open>The catch-all of \<open>syncTimeEntries\<close>\<close>


lemma syncTimeEntries_returned:
  "syncAttempt dp config fromDate toDate w = (Inr result, w') \<Longrightarrow>
   syncTimeEntries dp config fromDate toDate w = (Inr result, w')"
  by (simp add: syncTimeEntries_def)








subsection \<open>The success path\<close>

lemma createTimeEntries_Nil:
  "createTimeEntries c [] w =
     (\<lparr>success = [], failed = [], successCount = 0, failedCount = 0\<rparr>, w)"
  by (simp add: createTimeEntries_def)

lemma enrich_Nil: "enrichWorklogsWithIssueDetails f [] w = ([], w)"
  by (simp add: enrichWorklogsWithIssueDetails_def)

lemma syncTimeEntries_success:
  assumes fw: "fetchWorklogs' fromDate toDate w = (Inr tempoWorklogs, w1)"
    and en: "enrichWorklogsWithIssueDetails fetchJiraIssue tempoWorklogs w1 = (enriched, w2)"
    and ft: "fetchTimeEntries' fromDate toDate w2 = (Inr togglEntries, w3)"
    and dd: "filterDuplicateEntries dp (transformTempoWorklogsToToggl enriched cfg) togglEntries =
        Inr dedup"
    and cr: "createTimeEntries createTimeEntry (uniqueEntries dedup) w3 = (createResult, w4)"
  shows "syncTimeEntries dp
      \<lparr>tempoClient = newTempoClient fetchWorklogs' fetchJiraIssue,
       togglClient = newTogglClient fetchTimeEntries' createTimeEntry,
       transformConfig = cfg\<rparr> fromDate toDate w =
     (Inr \<lparr>tempoEntriesFetched = length tempoWorklogs,
           togglEntriesFetched = length togglEntries,
           uniqueEntriesCount = length (uniqueEntries dedup),
           duplicatesSkipped = skippedCount dedup,
           successfullyCreated = successCount createResult,
           failedToCreate = failedCount createResult,
           errors = map (\<lambda>f. ''Failed to create entry: '' @ error f) (failed createResult)\<rparr>,
      w4)"
proof -
  have "syncAttempt dp
      \<lparr>tempoClient = newTempoClient fetchWorklogs' fetchJiraIssue,
       togglClient = newTogglClient fetchTimeEntries' createTimeEntry,
       transformConfig = cfg\<rparr> fromDate toDate w =
     (Inr \<lparr>tempoEntriesFetched = length tempoWorklogs,
           togglEntriesFetched = length togglEntries,
           uniqueEntriesCount = length (uniqueEntries dedup),
           duplicatesSkipped = skippedCount dedup,
           successfullyCreated = successCount createResult,
           failedToCreate = failedCount createResult,
           errors = map (\<lambda>f. ''Failed to create entry: '' @ error f) (failed createResult)\<rparr>,
      w4)"
    by (simp add: syncAttempt_def newTempoClient_def newTogglClient_def fw en ft dd cr Let_def)
  then show ?thesis by (rule syncTimeEntries_returned)
qed

lemma threePayloads_start:
  "map start threePayloads =
     [''2025-10-01T09:00:00Z'', ''2025-10-01T10:00:00Z'', ''2025-10-01T11:00:00Z'']"
  by (simp add: threePayloads_def threeWorklogs_def testWorklog_def
      transformTempoWorklogsToToggl_def transformTempoWorklogToToggl_def Let_def testConfig_def)

lemma threePayloads_length: "length threePayloads = 3"
  using arg_cong [OF threePayloads_start, of length] by simp

lemma threePayloads_parsed: "\<forall>e \<in> set threePayloads. newDate isoParse (start e) \<noteq> None"
proof -
  have "\<forall>s \<in> set (map start threePayloads). newDate isoParse s \<noteq> None"
    unfolding threePayloads_start by (simp add: parsed_examples)
  then show ?thesis by simp
qed

lemma threePayloads_unique:
  "filterDuplicateEntries isoParse threePayloads [] =
     Inr \<lparr>uniqueEntries = threePayloads, duplicates = [], skippedCount = 0\<rparr>"
  using filterDuplicateEntries_total [of threePayloads isoParse "[]"] threePayloads_parsed
  by (simp add: startMatchesExisting_def)

lemma threeWorklogs_enrich:
  "enrichWorklogsWithIssueDetails testLookup threeWorklogs w = (threeWorklogs, w)"
  by (simp add: enrichWorklogsWithIssueDetails_def threeWorklogs_def testWorklog_def
      issueSelf_def applyDetails_def)

lemma three_created:
  "createTimeEntries (logged exampleCreateTimeEntry) threePayloads
     ([''fetchWorklogs'', ''fetchTimeEntries''], []) =
   (\<lparr>success = [\<lparr>existingStart = ''2025-10-01T09:00:00Z''\<rparr>,
                \<lparr>existingStart = ''2025-10-01T11:00:00Z''\<rparr>],
     failed = [\<lparr>entry = threePayloads ! 1,
                error = ''Failed to create time entry: 400 Bad Request - ''\<rparr>],
     successCount = 2, failedCount = 1\<rparr>,
    ([''fetchWorklogs'', ''fetchTimeEntries'', ''createTimeEntry'', ''createTimeEntry'',
      ''createTimeEntry''],
     [(threePayloads ! 0, Inr \<lparr>existingStart = ''2025-10-01T09:00:00Z''\<rparr>),
      (threePayloads ! 1, Inl badRequest),
      (threePayloads ! 2, Inr \<lparr>existingStart = ''2025-10-01T11:00:00Z''\<rparr>)]))"
  by code_simp

text \<open>
  Claim C5.  On the success path, with a creation request that records its calls: every
  unique entry is submitted once, in order, whatever the outcome of the requests before
  it; the result counts the requests that succeeded and those that threw; its errors are,
  in order, one string \<open>Failed to create entry: \<close> followed by the message for each request
  that threw.  The two counts add up to the number of unique entries, so when one of three
  creations fails the result reports 2 created, 1 failed and 1 error.
\<close>

theorem syncTimeEntries_creation_failures:
  assumes fw: "fetchWorklogs' fromDate toDate w = (Inr tempoWorklogs, w1)"
    and en: "enrichWorklogsWithIssueDetails fetchJiraIssue tempoWorklogs w1 = (enriched, w2)"
    and ft: "fetchTimeEntries' fromDate toDate w2 = (Inr togglEntries, w3)"
    and dd: "filterDuplicateEntries dp (transformTempoWorklogsToToggl enriched cfg) togglEntries =
        Inr dedup"
    and cr: "createTimeEntries (logged createTimeEntry) (uniqueEntries dedup) (w3, []) =
        (createResult, (w4, log))"
  shows "\<exists>result. syncTimeEntries dp
        \<lparr>tempoClient = newTempoClient fetchWorklogs' fetchJiraIssue,
         togglClient = newTogglClient fetchTimeEntries' createTimeEntry,
         transformConfig = cfg\<rparr> fromDate toDate w = (Inr result, w4)
     \<and> map fst log = uniqueEntries dedup
     \<and> successfullyCreated result = length (createdOf log)
     \<and> failedToCreate result = length (failedOf log)
     \<and> errors result = map (\<lambda>f. ''Failed to create entry: '' @ error f) (failedOf log)
     \<and> length (errors result) = failedToCreate result
     \<and> successfullyCreated result + failedToCreate result = length (uniqueEntries dedup)
     \<and> (length (uniqueEntries dedup) = 3 \<and> failedToCreate result = 1 \<longrightarrow>
          successfullyCreated result = 2 \<and> failedToCreate result = 1
          \<and> length (errors result) = 1)"
proof -
  note l = createTimeEntries_logged [OF cr]
  from l have plain:
    "createTimeEntries createTimeEntry (uniqueEntries dedup) w3 = (createResult, w4)" ..
  from l have calls: "map fst log = uniqueEntries dedup" by (elim conjE)
  from l have res: "createResult = \<lparr>success = createdOf log, failed = failedOf log,
      successCount = length (createdOf log), failedCount = length (failedOf log)\<rparr>"
    by (elim conjE)
  have total: "length (createdOf log) + length (failedOf log) = length (uniqueEntries dedup)"
    using created_failed_length [of log] calls by (metis length_map)
  let ?result = "\<lparr>tempoEntriesFetched = length tempoWorklogs,
           togglEntriesFetched = length togglEntries,
           uniqueEntriesCount = length (uniqueEntries dedup),
           duplicatesSkipped = skippedCount dedup,
           successfullyCreated = successCount createResult,
           failedToCreate = failedCount createResult,
           errors = map (\<lambda>f. ''Failed to create entry: '' @ error f) (failed createResult)\<rparr>"
  have run: "syncTimeEntries dp
        \<lparr>tempoClient = newTempoClient fetchWorklogs' fetchJiraIssue,
         togglClient = newTogglClient fetchTimeEntries' createTimeEntry,
         transformConfig = cfg\<rparr> fromDate toDate w = (Inr ?result, w4)"
    using fw en ft dd plain by (rule syncTimeEntries_success)
  have 1: "successfullyCreated ?result = length (createdOf log)" by (simp add: res)
  have 2: "failedToCreate ?result = length (failedOf log)" by (simp add: res)
  have 3: "errors ?result = map (\<lambda>f. ''Failed to create entry: '' @ error f) (failedOf log)"
    by (simp add: res)
  have 4: "length (errors ?result) = failedToCreate ?result" by (simp add: res)
  have 5: "successfullyCreated ?result + failedToCreate ?result = length (uniqueEntries dedup)"
    using total by (simp add: res)
  have 6: "length (uniqueEntries dedup) = 3 \<and> failedToCreate ?result = 1 \<longrightarrow>
      successfullyCreated ?result = 2 \<and> failedToCreate ?result = 1
      \<and> length (errors ?result) = 1"
    using total by (simp add: res)
  show ?thesis
    by (intro exI [where x = ?result] conjI) (fact run calls 1 2 3 4 5 6)+
qed

theorem syncTimeEntries_creation_failures_witness:
  "\<exists>result. syncTimeEntries isoParse (exampleService (Inr threeWorklogs) (Inr []))
        ''2025-10-01'' ''2025-10-02'' [] =
      (Inr result,
       [''fetchWorklogs'', ''fetchTimeEntries'', ''createTimeEntry'', ''createTimeEntry'',
        ''createTimeEntry''])
   \<and> successfullyCreated result = 2 \<and> failedToCreate result = 1
   \<and> errors result = [''Failed to create entry: Failed to create time entry: 400 Bad Request - '']"
proof -
  have fw: "exampleFetchWorklogs (Inr threeWorklogs) ''2025-10-01'' ''2025-10-02'' [] =
      (Inr threeWorklogs, [''fetchWorklogs''])"
    by (simp add: exampleFetchWorklogs_def)
  have en: "enrichWorklogsWithIssueDetails testLookup threeWorklogs [''fetchWorklogs''] =
      (threeWorklogs, [''fetchWorklogs''])"
    by (rule threeWorklogs_enrich)
  have ft: "exampleFetchTimeEntries (Inr []) ''2025-10-01'' ''2025-10-02'' [''fetchWorklogs''] =
      (Inr [], [''fetchWorklogs'', ''fetchTimeEntries''])"
    by (simp add: exampleFetchTimeEntries_def)
  have dd: "filterDuplicateEntries isoParse
      (transformTempoWorklogsToToggl threeWorklogs testConfig) [] =
      Inr \<lparr>uniqueEntries = threePayloads, duplicates = [], skippedCount = 0\<rparr>"
    using threePayloads_unique by (simp add: threePayloads_def)
  have cr: "createTimeEntries (logged exampleCreateTimeEntry)
      (uniqueEntries \<lparr>uniqueEntries = threePayloads, duplicates = [], skippedCount = 0\<rparr>)
      ([''fetchWorklogs'', ''fetchTimeEntries''], []) =
   (\<lparr>success = [\<lparr>existingStart = ''2025-10-01T09:00:00Z''\<rparr>,
                \<lparr>existingStart = ''2025-10-01T11:00:00Z''\<rparr>],
     failed = [\<lparr>entry = threePayloads ! 1,
                error = ''Failed to create time entry: 400 Bad Request - ''\<rparr>],
     successCount = 2, failedCount = 1\<rparr>,
    ([''fetchWorklogs'', ''fetchTimeEntries'', ''createTimeEntry'', ''createTimeEntry'',
      ''createTimeEntry''],
     [(threePayloads ! 0, Inr \<lparr>existingStart = ''2025-10-01T09:00:00Z''\<rparr>),
      (threePayloads ! 1, Inl badRequest),
      (threePayloads ! 2, Inr \<lparr>existingStart = ''2025-10-01T11:00:00Z''\<rparr>)]))"
    using three_created by simp
  have "\<exists>result. syncTimeEntries isoParse
        \<lparr>tempoClient = newTempoClient (exampleFetchWorklogs (Inr threeWorklogs)) testLookup,
         togglClient = newTogglClient (exampleFetchTimeEntries (Inr [])) exampleCreateTimeEntry,
         transformConfig = testConfig\<rparr> ''2025-10-01'' ''2025-10-02'' [] =
        (Inr result,
         [''fetchWorklogs'', ''fetchTimeEntries'', ''createTimeEntry'', ''createTimeEntry'',
          ''createTimeEntry''])
     \<and> successfullyCreated result =
         length (createdOf
           [(threePayloads ! 0, Inr \<lparr>existingStart = ''2025-10-01T09:00:00Z''\<rparr>),
            (threePayloads ! 1, Inl badRequest),
            (threePayloads ! 2, Inr \<lparr>existingStart = ''2025-10-01T11:00:00Z''\<rparr>)])
     \<and> failedToCreate result =
         length (failedOf
           [(threePayloads ! 0, Inr \<lparr>existingStart = ''2025-10-01T09:00:00Z''\<rparr>),
            (threePayloads ! 1, Inl badRequest),
            (threePayloads ! 2, Inr \<lparr>existingStart = ''2025-10-01T11:00:00Z''\<rparr>)])
     \<and> errors result = map (\<lambda>f. ''Failed to create entry: '' @ error f)
         (failedOf
           [(threePayloads ! 0, Inr \<lparr>existingStart = ''2025-10-01T09:00:00Z''\<rparr>),
            (threePayloads ! 1, Inl badRequest),
            (threePayloads ! 2, Inr \<lparr>existingStart = ''2025-10-01T11:00:00Z''\<rparr>)])"
    using syncTimeEntries_creation_failures
      [where fetchWorklogs' = "exampleFetchWorklogs (Inr threeWorklogs)"
         and fetchJiraIssue = testLookup
         and fetchTimeEntries' = "exampleFetchTimeEntries (Inr [])"
         and createTimeEntry = exampleCreateTimeEntry, OF fw en ft dd cr]
    by blast
  then show ?thesis
    by (simp add: exampleService_def badRequest_def numeral_2_eq_2)
qed

text \<open>
  Claim C7, as the code has it.  When the source fetch returns no worklogs and the sink
  fetch returns entries whose starts all parse, the result reports the number of sink
  entries as \<open>togglEntriesFetched\<close>; the other five counters are 0 and there are no errors.
  Neither a lookup nor a creation request is made.
\<close>

theorem syncTimeEntries_empty_source:
  assumes fw: "fetchWorklogs' fromDate toDate w = (Inr [], w1)"
    and ft: "fetchTimeEntries' fromDate toDate w1 = (Inr togglEntries, w2)"
    and ok: "\<forall>x \<in> set togglEntries. newDate dp (existingStart x) \<noteq> None"
  shows "syncTimeEntries dp
      \<lparr>tempoClient = newTempoClient fetchWorklogs' fetchJiraIssue,
       togglClient = newTogglClient fetchTimeEntries' createTimeEntry,
       transformConfig = cfg\<rparr> fromDate toDate w =
     (Inr \<lparr>tempoEntriesFetched = 0,
           togglEntriesFetched = length togglEntries,
           uniqueEntriesCount = 0,
           duplicatesSkipped = 0,
           successfullyCreated = 0,
           failedToCreate = 0,
           errors = []\<rparr>, w2)"
proof -
  have dd: "filterDuplicateEntries dp (transformTempoWorklogsToToggl [] cfg) togglEntries =
      Inr \<lparr>uniqueEntries = [], duplicates = [], skippedCount = 0\<rparr>"
    using filterDuplicateEntries_total [of "[]" dp togglEntries] ok
    by (simp add: transformTempoWorklogsToToggl_def)
  have cr: "createTimeEntries createTimeEntry
      (uniqueEntries \<lparr>uniqueEntries = [], duplicates = [], skippedCount = 0\<rparr>) w2 =
      (\<lparr>success = [], failed = [], successCount = 0, failedCount = 0\<rparr>, w2)"
    by (simp add: createTimeEntries_Nil)
  have en: "enrichWorklogsWithIssueDetails fetchJiraIssue [] w1 = ([], w1)"
    by (rule enrich_Nil)
  have "syncTimeEntries dp
      \<lparr>tempoClient = newTempoClient fetchWorklogs' fetchJiraIssue,
       togglClient = newTogglClient fetchTimeEntries' createTimeEntry,
       transformConfig = cfg\<rparr> fromDate toDate w =
     (Inr \<lparr>tempoEntriesFetched = length ([] :: TempoWorklog list),
           togglEntriesFetched = length togglEntries,
           uniqueEntriesCount =
             length (uniqueEntries \<lparr>uniqueEntries = [], duplicates = [], skippedCount = 0\<rparr>),
           duplicatesSkipped =
             skippedCount \<lparr>uniqueEntries = [], duplicates = [], skippedCount = 0\<rparr>,
           successfullyCreated =
             successCount \<lparr>success = [], failed = [], successCount = 0, failedCount = 0\<rparr>,
           failedToCreate =
             failedCount \<lparr>success = [], failed = [], successCount = 0, failedCount = 0\<rparr>,
           errors = map (\<lambda>f. ''Failed to create entry: '' @ error f)
             (failed \<lparr>success = [], failed = [], successCount = 0, failedCount = 0\<rparr>)\<rparr>,
      w2)"
    using fw en ft dd cr by (rule syncTimeEntries_success)
  then show ?thesis by simp
qed

lemma empty_source_example:
  "syncTimeEntries isoParse (exampleService (Inr []) (Inr testExistingEntries))
     ''2025-10-01'' ''2025-10-02'' [] =
   (Inr \<lparr>tempoEntriesFetched = 0, togglEntriesFetched = 1, uniqueEntriesCount = 0,
         duplicatesSkipped = 0, successfullyCreated = 0, failedToCreate = 0, errors = []\<rparr>,
    [''fetchWorklogs'', ''fetchTimeEntries''])"
  by code_simp

theorem syncTimeEntries_empty_source_witness:
  "list_all (\<lambda>x. newDate isoParse (existingStart x) \<noteq> None) testExistingEntries
   \<and> syncTimeEntries isoParse (exampleService (Inr []) (Inr testExistingEntries))
     ''2025-10-01'' ''2025-10-02'' [] =
   (Inr \<lparr>tempoEntriesFetched = 0, togglEntriesFetched = length testExistingEntries,
         uniqueEntriesCount = 0, duplicatesSkipped = 0, successfullyCreated = 0,
         failedToCreate = 0, errors = []\<rparr>,
    [''fetchWorklogs'', ''fetchTimeEntries''])"
proof -
  have fw: "exampleFetchWorklogs (Inr []) ''2025-10-01'' ''2025-10-02'' [] =
      (Inr [], [''fetchWorklogs''])"
    by (simp add: exampleFetchWorklogs_def)
  have ft: "exampleFetchTimeEntries (Inr testExistingEntries) ''2025-10-01'' ''2025-10-02''
      [''fetchWorklogs''] = (Inr testExistingEntries, [''fetchWorklogs'', ''fetchTimeEntries''])"
    by (simp add: exampleFetchTimeEntries_def)
  have ok: "\<forall>x \<in> set testExistingEntries. newDate isoParse (existingStart x) \<noteq> None"
    by (simp add: testExistingEntries_def parsed_examples)
  have "syncTimeEntries isoParse
      \<lparr>tempoClient = newTempoClient (exampleFetchWorklogs (Inr [])) testLookup,
       togglClient = newTogglClient (exampleFetchTimeEntries (Inr testExistingEntries))
         exampleCreateTimeEntry,
       transformConfig = testConfig\<rparr> ''2025-10-01'' ''2025-10-02'' [] =
     (Inr \<lparr>tempoEntriesFetched = 0, togglEntriesFetched = length testExistingEntries,
           uniqueEntriesCount = 0, duplicatesSkipped = 0, successfullyCreated = 0,
           failedToCreate = 0, errors = []\<rparr>,
      [''fetchWorklogs'', ''fetchTimeEntries''])"
    using fw ft ok by (rule syncTimeEntries_empty_source)
  then show ?thesis using ok by (simp add: exampleService_def list_all_iff)
qed

text \<open>
  With an empty source and one entry in the sink, \<open>togglEntriesFetched\<close> is 1, not 0.
\<close>

theorem syncTimeEntries_empty_source_counts_sink:
  "fetchWorklogs (tempoClient (exampleService (Inr []) (Inr testExistingEntries)))
     ''2025-10-01'' ''2025-10-02'' [] = (Inr [], [''fetchWorklogs''])
   \<and> fst (syncTimeEntries isoParse (exampleService (Inr []) (Inr testExistingEntries))
         ''2025-10-01'' ''2025-10-02'' []) =
       Inr \<lparr>tempoEntriesFetched = 0, togglEntriesFetched = 1, uniqueEntriesCount = 0,
            duplicatesSkipped = 0, successfullyCreated = 0, failedToCreate = 0, errors = []\<rparr>
   \<and> togglEntriesFetched \<lparr>tempoEntriesFetched = 0, togglEntriesFetched = 1,
         uniqueEntriesCount = 0, duplicatesSkipped = 0, successfullyCreated = 0,
         failedToCreate = 0, errors = []\<rparr> \<noteq> 0"
  using empty_source_example
  by (simp add: exampleService_def newTempoClient_def exampleFetchWorklogs_def)

end
